theory Spec2Isabelle
  imports Main "HOL-Library.Multiset"
begin

section \<open>Values stored by the PhysioHome schema\<close>

text \<open>
  The repository is an Express server (\<^verbatim>\<open>server.js\<close>) over a MySQL schema
  (\<^verbatim>\<open>database.sql\<close>). The scheduling behaviour is split between the two: the HTTP
  handlers read and write the \<^verbatim>\<open>appointments\<close> table, and the schema adds a
  unique key, foreign keys, three triggers and one stored procedure. The model below
  follows both files: a table is a list of rows, a statement is a function on the
  database that returns an SQL error or the new database, and a handler is a
  function that returns the HTTP response together with the database it leaves.
\<close>

datatype role = Admin | Therapist | Patient

text \<open>The \<^verbatim>\<open>status\<close> column: an ENUM of six values (the API accepts five of them).\<close>

datatype appointment_status =
  Scheduled | Confirmed | In_progress | Completed | Cancelled | No_show

fun status_name :: "appointment_status \<Rightarrow> string" where
  "status_name Scheduled = ''scheduled''"
| "status_name Confirmed = ''confirmed''"
| "status_name In_progress = ''in_progress''"
| "status_name Completed = ''completed''"
| "status_name Cancelled = ''cancelled''"
| "status_name No_show = ''no_show''"

text \<open>The ENUM member a status string denotes when it is written to the column.\<close>

definition enum_of_string :: "string \<Rightarrow> appointment_status option" where
  "enum_of_string s =
     (if s = ''scheduled'' then Some Scheduled
      else if s = ''confirmed'' then Some Confirmed
      else if s = ''in_progress'' then Some In_progress
      else if s = ''completed'' then Some Completed
      else if s = ''cancelled'' then Some Cancelled
      else if s = ''no_show'' then Some No_show
      else None)"

text \<open>
  Free text (a service type, an address, notes) is a JavaScript string: a list of
  UTF-16 code units. \<open>js\<close> gives the code units of an ASCII literal.
\<close>

type_synonym js_string = "nat list"

definition js :: "string \<Rightarrow> js_string" where
  "js s = map of_char s"

text \<open>A DATE, by its calendar fields; a TIME, in seconds since 00:00:00.\<close>

record sql_date =
  date_year :: nat
  date_month :: nat
  date_day :: nat

type_synonym sql_time = nat

text \<open>
  A \<^verbatim>\<open>DECIMAL(10,2)\<close> column holds a whole number of hundredths of at most ten
  digits; the model stores that number.
\<close>

type_synonym decimal_10_2 = int

text \<open>An exact-value intermediate result: \<open>unscaled / 10 ^ scale\<close>.\<close>

record sql_decimal =
  unscaled :: int
  scale :: nat

text \<open>
  What a statement can fail with: the server's errors for a duplicate key, a missing
  referenced row, a value out of a column's range, a value that is no date or no
  member of an ENUM, a scalar subquery or a \<^verbatim>\<open>SELECT ... INTO\<close> of more than one
  row, and the driver's refusal of an \<^verbatim>\<open>undefined\<close> bind parameter. The server
  runs in strict SQL mode, its default: a value a column cannot hold is an error.
\<close>

datatype sql_error =
  ER_DUP_ENTRY | ER_NO_REFERENCED_ROW | ER_WARN_DATA_OUT_OF_RANGE
  | ER_TRUNCATED_WRONG_VALUE | WARN_DATA_TRUNCATED
  | ER_SUBQUERY_NO_1_ROW | ER_TOO_MANY_ROWS | ER_BIND_UNDEFINED

subsection \<open>Rows and tables\<close>

record user_row =
  user_id :: int
  user_role :: role
  is_active :: bool

record therapist_row =
  therapist_pk :: int
  profile_user_id :: int
  hourly_rate :: decimal_10_2

record availability_row =
  ta_therapist_id :: int
  day_of_week :: int
  start_time :: sql_time
  end_time :: sql_time
  is_available :: bool

record appointment_row =
  appointment_id :: int
  patient_id :: int
  therapist_id :: int
  appointment_date :: sql_date
  appointment_time :: sql_time
  service_type :: js_string
  status :: appointment_status
  duration_minutes :: "int option"
  appointment_notes :: "js_string option"
  patient_address :: js_string
  total_cost :: "decimal_10_2 option"

record notification_row =
  n_user_id :: int
  n_title :: string
  n_message :: string
  n_type :: string
  n_related_id :: "int option"
  n_related_type :: "string option"

record audit_row =
  al_user_id :: "int option"
  al_action :: string
  al_table_name :: string
  al_record_id :: "int option"
  al_old_values :: "(string \<times> string) list"
  al_new_values :: "(string \<times> string) list"

text \<open>
  The database: the six tables the scheduling code touches, and the
  \<^verbatim>\<open>AUTO_INCREMENT\<close> counter of \<^verbatim>\<open>appointments\<close>. The two BOOLEAN flags are
  nullable in the schema; both are only ever compared with \<^verbatim>\<open>= 1\<close> or
  \<^verbatim>\<open>= TRUE\<close>, which a NULL fails like FALSE does, so \<open>False\<close> stands for both.
\<close>

record database =
  users :: "user_row list"
  therapists :: "therapist_row list"
  therapist_availability :: "availability_row list"
  appointments :: "appointment_row list"
  notifications :: "notification_row list"
  audit_logs :: "audit_row list"
  appointments_auto_increment :: int

section \<open>Built-in functions of the server used by the schema\<close>

text \<open>
  \<^verbatim>\<open>DAYOFWEEK(date)\<close> returns 1 for Sunday up to 7 for Saturday. The model counts
  the days from 1970-01-01 (a Thursday) in the proleptic Gregorian calendar, with
  years that start on the first of March: \<open>days_before_year y\<close> are the days of
  the years before \<open>y\<close>, and the day within the year comes from the month and the
  day of the month.
\<close>

definition days_before_year :: "int \<Rightarrow> int" where
  "days_before_year y =
     (y div 400) * 146097 + ((y mod 400) * 365 + (y mod 400) div 4 - (y mod 400) div 100)"

definition days_from_civil :: "sql_date \<Rightarrow> int" where
  "days_from_civil d =
     (let y = int (date_year d) - (if date_month d \<le> 2 then 1 else 0);
          mp = (int (date_month d) + 9) mod 12;
          doy = (153 * mp + 2) div 5 + int (date_day d) - 1
      in days_before_year y + doy - 719468)"

definition DAYOFWEEK :: "sql_date \<Rightarrow> int" where
  "DAYOFWEEK d = (days_from_civil d + 4) mod 7 + 1"

definition leap_year :: "nat \<Rightarrow> bool" where
  "leap_year y = (y mod 4 = 0 \<and> (y mod 100 \<noteq> 0 \<or> y mod 400 = 0))"

definition days_in_month :: "nat \<Rightarrow> nat \<Rightarrow> nat" where
  "days_in_month y m =
     (if m = 2 then (if leap_year y then 29 else 28)
      else if m = 4 \<or> m = 6 \<or> m = 9 \<or> m = 11 then 30 else 31)"

definition valid_date :: "sql_date \<Rightarrow> bool" where
  "valid_date d =
     (1 \<le> date_year d \<and> date_year d \<le> 9999 \<and> 1 \<le> date_month d \<and> date_month d \<le> 12
      \<and> 1 \<le> date_day d \<and> date_day d \<le> days_in_month (date_year d) (date_month d))"

text \<open>
  What a DATE column stores: a day that the month of that year has. (The year 0000
  is taken as stored; the manual promises the years from 1000 on.)
\<close>

definition storable_date :: "sql_date \<Rightarrow> bool" where
  "storable_date d =
     (date_year d \<le> 9999 \<and> 1 \<le> date_month d \<and> date_month d \<le> 12
      \<and> 1 \<le> date_day d \<and> date_day d \<le> days_in_month (date_year d) (date_month d))"

text \<open>The day after a date.\<close>

definition next_day :: "sql_date \<Rightarrow> sql_date" where
  "next_day d =
     (if date_day d < days_in_month (date_year d) (date_month d)
      then d\<lparr>date_day := date_day d + 1\<rparr>
      else if date_month d < 12 then d\<lparr>date_month := date_month d + 1, date_day := 1\<rparr>
      else \<lparr>date_year = date_year d + 1, date_month = 1, date_day = 1\<rparr>)"

text \<open>Decimal digits, for \<^verbatim>\<open>DATE_FORMAT\<close> and \<^verbatim>\<open>TIME_FORMAT\<close>.\<close>

definition digit :: "nat \<Rightarrow> char" where
  "digit n = ''0123456789'' ! (n mod 10)"

fun decimal_digits :: "nat \<Rightarrow> string" where
  "decimal_digits n =
     (if n < 10 then [digit n] else decimal_digits (n div 10) @ [digit (n mod 10)])"

declare decimal_digits.simps [simp del]

definition zero_pad :: "nat \<Rightarrow> string \<Rightarrow> string" where
  "zero_pad w s = replicate (w - length s) (CHR ''0'') @ s"

text \<open>\<^verbatim>\<open>DATE_FORMAT(d, '%d/%m/%Y')\<close> and \<^verbatim>\<open>TIME_FORMAT(t, '%H:%i')\<close>.\<close>

definition DATE_FORMAT_dmY :: "sql_date \<Rightarrow> string" where
  "DATE_FORMAT_dmY d =
     zero_pad 2 (decimal_digits (date_day d)) @ ''/'' @
     zero_pad 2 (decimal_digits (date_month d)) @ ''/'' @
     zero_pad 4 (decimal_digits (date_year d))"

definition TIME_FORMAT_Hi :: "sql_time \<Rightarrow> string" where
  "TIME_FORMAT_Hi t =
     zero_pad 2 (decimal_digits (t div 3600)) @ '':'' @
     zero_pad 2 (decimal_digits ((t div 60) mod 60))"

text \<open>
  Rounding of an exact value to a whole number, half away from zero, as the server
  does when an exact value is stored in a column of smaller scale: \<open>a / b\<close> for
  \<open>0 < b\<close>.
\<close>

definition round_div :: "int \<Rightarrow> int \<Rightarrow> int" where
  "round_div a b =
     (if 0 \<le> a then (2 * a + b) div (2 * b) else - ((2 * (- a) + b) div (2 * b)))"

text \<open>
  Storing the exact value \<open>x\<close> in a \<^verbatim>\<open>DECIMAL(10,2)\<close> column: rounded to
  hundredths; a value of more than ten digits is refused (strict SQL mode).
\<close>

definition store_decimal_10_2 :: "sql_decimal \<Rightarrow> sql_error + decimal_10_2" where
  "store_decimal_10_2 x =
     (let c = (if scale x \<le> 2 then unscaled x * 10 ^ (2 - scale x)
               else round_div (unscaled x) (10 ^ (scale x - 2)))
      in if \<bar>c\<bar> \<le> 9999999999 then Inr c else Inl ER_WARN_DATA_OUT_OF_RANGE)"

text \<open>The product of a \<^verbatim>\<open>DECIMAL(10,2)\<close> value and an exact value is exact.\<close>

definition decimal_times :: "decimal_10_2 \<Rightarrow> sql_decimal \<Rightarrow> sql_decimal" where
  "decimal_times r q = \<lparr>unscaled = r * unscaled q, scale = 2 + scale q\<rparr>"

text \<open>
  The quotient of two integers (operator \<^verbatim>\<open>/\<close>) is an exact value whose number of
  fractional digits is fixed by the server (its \<^verbatim>\<open>div_precision_increment\<close>
  setting), not by the repository; the trigger that divides takes the division as
  a parameter. \<open>div_scaled n\<close> is the division that keeps \<open>n\<close> fractional digits,
  rounded half away from zero (\<open>n = 4\<close> is the server's default); \<open>exact_quotient\<close>
  says that a quotient was representable without rounding.
\<close>

type_synonym sql_division = "int \<Rightarrow> int \<Rightarrow> sql_decimal"

definition div_scaled :: "nat \<Rightarrow> sql_division" where
  "div_scaled n a b =
     \<lparr>unscaled = (if 0 < b then round_div (a * 10 ^ n) b else - round_div (a * 10 ^ n) (- b)),
      scale = n\<rparr>"


section \<open>The schema's constraints and triggers on \<^verbatim>\<open>appointments\<close>\<close>

definition user_exists :: "database \<Rightarrow> int \<Rightarrow> bool" where
  "user_exists db i = (i \<in> set (map user_id (users db)))"

text \<open>The columns of \<^verbatim>\<open>UNIQUE KEY unique_appointment\<close>.\<close>

definition unique_appointment :: "appointment_row \<Rightarrow> int \<times> sql_date \<times> sql_time" where
  "unique_appointment a = (therapist_id a, appointment_date a, appointment_time a)"

text \<open>
  Trigger \<^verbatim>\<open>calculate_appointment_cost\<close>, \<^verbatim>\<open>BEFORE INSERT\<close>. The rate is read with
  \<^verbatim>\<open>SELECT hourly_rate INTO therapist_rate FROM therapists t JOIN users u ON
  t.user_id = u.id WHERE u.id = NEW.therapist_id\<close>: no row leaves the variable NULL,
  and NULL times anything is NULL.
\<close>

definition select_therapist_rate :: "database \<Rightarrow> int \<Rightarrow> sql_error + decimal_10_2 option" where
  "select_therapist_rate db tid =
     (case [hourly_rate t. t \<leftarrow> therapists db, u \<leftarrow> users db,
              profile_user_id t = user_id u \<and> user_id u = tid] of
        [] \<Rightarrow> Inr None
      | [r] \<Rightarrow> Inr (Some r)
      | _ \<Rightarrow> Inl ER_TOO_MANY_ROWS)"

definition calculate_appointment_cost ::
  "sql_division \<Rightarrow> database \<Rightarrow> appointment_row \<Rightarrow> sql_error + appointment_row" where
  "calculate_appointment_cost sql_div db NEW =
     (case select_therapist_rate db (therapist_id NEW) of
        Inl e \<Rightarrow> Inl e
      | Inr therapist_rate \<Rightarrow>
          (case total_cost NEW of
             Some c \<Rightarrow> Inr NEW
           | None \<Rightarrow>
               (case (therapist_rate, duration_minutes NEW) of
                  (Some r, Some d) \<Rightarrow>
                    (case store_decimal_10_2 (decimal_times r (sql_div d 60)) of
                       Inl e \<Rightarrow> Inl e
                     | Inr c \<Rightarrow> Inr (NEW\<lparr>total_cost := Some c\<rparr>))
                | _ \<Rightarrow> Inr NEW)))"

text \<open>Trigger \<^verbatim>\<open>create_appointment_notification\<close>, \<^verbatim>\<open>AFTER INSERT\<close>.\<close>

definition therapist_notification :: "appointment_row \<Rightarrow> notification_row" where
  "therapist_notification NEW =
     \<lparr>n_user_id = therapist_id NEW,
      n_title = ''Appointment Baru'',
      n_message = ''Anda memiliki appointment baru pada '' @
        DATE_FORMAT_dmY (appointment_date NEW) @ '' jam '' @
        TIME_FORMAT_Hi (appointment_time NEW),
      n_type = ''appointment'',
      n_related_id = Some (appointment_id NEW),
      n_related_type = Some ''appointment''\<rparr>"

definition patient_notification :: "appointment_row \<Rightarrow> notification_row" where
  "patient_notification NEW =
     \<lparr>n_user_id = patient_id NEW,
      n_title = ''Appointment Terkonfirmasi'',
      n_message = ''Appointment Anda telah terjadwal pada '' @
        DATE_FORMAT_dmY (appointment_date NEW) @ '' jam '' @
        TIME_FORMAT_Hi (appointment_time NEW),
      n_type = ''appointment'',
      n_related_id = Some (appointment_id NEW),
      n_related_type = Some ''appointment''\<rparr>"

definition create_appointment_notification ::
  "database \<Rightarrow> appointment_row \<Rightarrow> sql_error + database" where
  "create_appointment_notification db NEW =
     (if \<not> user_exists db (therapist_id NEW) \<or> \<not> user_exists db (patient_id NEW)
      then Inl ER_NO_REFERENCED_ROW
      else Inr (db\<lparr>notifications :=
                  notifications db @ [therapist_notification NEW, patient_notification NEW]\<rparr>))"

text \<open>
  \<^verbatim>\<open>INSERT INTO appointments\<close>: the date of the row must be one the column
  stores; then the \<^verbatim>\<open>BEFORE INSERT\<close> trigger, the \<^verbatim>\<open>AUTO_INCREMENT\<close> id, the
  primary key, the two foreign keys to \<^verbatim>\<open>users\<close>, the unique key, the row itself,
  then the \<^verbatim>\<open>AFTER INSERT\<close> trigger. A statement that fails leaves the database as
  it was. The result carries the \<^verbatim>\<open>insertId\<close>.
\<close>

definition insert_appointments ::
  "sql_division \<Rightarrow> database \<Rightarrow> appointment_row \<Rightarrow> sql_error + (database \<times> int)" where
  "insert_appointments sql_div db row =
     (if \<not> storable_date (appointment_date row) then Inl ER_TRUNCATED_WRONG_VALUE
      else case calculate_appointment_cost sql_div db row of
        Inl e \<Rightarrow> Inl e
      | Inr row' \<Rightarrow>
          (let NEW = row'\<lparr>appointment_id := appointments_auto_increment db\<rparr> in
           if appointment_id NEW \<in> set (map appointment_id (appointments db))
           then Inl ER_DUP_ENTRY
           else if \<not> user_exists db (patient_id NEW) \<or> \<not> user_exists db (therapist_id NEW)
           then Inl ER_NO_REFERENCED_ROW
           else if unique_appointment NEW \<in> set (map unique_appointment (appointments db))
           then Inl ER_DUP_ENTRY
           else
             (case create_appointment_notification
                     (db\<lparr>appointments := appointments db @ [NEW],
                         appointments_auto_increment := appointments_auto_increment db + 1\<rparr>)
                     NEW of
                Inl e \<Rightarrow> Inl e
              | Inr db' \<Rightarrow> Inr (db', appointment_id NEW))))"

text \<open>
  Trigger \<^verbatim>\<open>log_appointment_changes\<close>, \<^verbatim>\<open>AFTER UPDATE\<close>, for one updated row. The
  row it inserts into \<^verbatim>\<open>audit_logs\<close> has \<^verbatim>\<open>NEW.patient_id\<close> as its \<^verbatim>\<open>user_id\<close>, which
  is a foreign key to \<^verbatim>\<open>users\<close>.
\<close>

definition status_change_entry :: "appointment_row \<Rightarrow> appointment_row \<Rightarrow> audit_row" where
  "status_change_entry OLD NEW =
     \<lparr>al_user_id = Some (patient_id NEW),
      al_action = ''status_change'',
      al_table_name = ''appointments'',
      al_record_id = Some (appointment_id NEW),
      al_old_values = [(''status'', status_name (status OLD))],
      al_new_values = [(''status'', status_name (status NEW))]\<rparr>"

definition log_appointment_changes ::
  "database \<Rightarrow> appointment_row \<Rightarrow> appointment_row \<Rightarrow> sql_error + database" where
  "log_appointment_changes db OLD NEW =
     (if status OLD \<noteq> status NEW then
        (if \<not> user_exists db (patient_id NEW) then Inl ER_NO_REFERENCED_ROW
         else Inr (db\<lparr>audit_logs := audit_logs db @ [status_change_entry OLD NEW]\<rparr>))
      else Inr db)"

fun after_update_each ::
  "database \<Rightarrow> (appointment_row \<times> appointment_row) list \<Rightarrow> sql_error + database" where
  "after_update_each db [] = Inr db"
| "after_update_each db ((OLD, NEW) # rest) =
     (case log_appointment_changes db OLD NEW of
        Inl e \<Rightarrow> Inl e
      | Inr db' \<Rightarrow> after_update_each db' rest)"

text \<open>
  \<^verbatim>\<open>UPDATE appointments SET status = ?, notes = COALESCE(?, notes), updated_at = NOW()
  WHERE id = ?\<close>, with the \<^verbatim>\<open>AFTER UPDATE\<close> trigger run for every row it updates.
\<close>

definition set_status_and_notes ::
  "appointment_status \<Rightarrow> js_string option \<Rightarrow> appointment_row \<Rightarrow> appointment_row" where
  "set_status_and_notes st n OLD =
     OLD\<lparr>status := st,
         appointment_notes := (case n of Some x \<Rightarrow> Some x | None \<Rightarrow> appointment_notes OLD)\<rparr>"

definition update_appointments ::
  "database \<Rightarrow> appointment_status \<Rightarrow> js_string option \<Rightarrow> int \<Rightarrow> sql_error + database" where
  "update_appointments db st n i =
     (let updated = [(OLD, set_status_and_notes st n OLD).
                       OLD \<leftarrow> appointments db, appointment_id OLD = i]
      in after_update_each
           (db\<lparr>appointments :=
                 map (\<lambda>a. if appointment_id a = i then set_status_and_notes st n a else a)
                   (appointments db)\<rparr>)
           updated)"

section \<open>Stored procedure \<^verbatim>\<open>GetAvailableTimeSlots\<close>\<close>

record slot_row =
  slot_start_time :: sql_time
  slot_end_time :: sql_time
  slot_time :: sql_time

text \<open>
  The scalar subquery \<^verbatim>\<open>(SELECT id FROM therapists WHERE user_id = therapist_user_id)\<close>:
  NULL without a row, an error with more than one.
\<close>

definition select_therapist_id :: "database \<Rightarrow> int \<Rightarrow> sql_error + int option" where
  "select_therapist_id db therapist_user_id =
     (case [therapist_pk t. t \<leftarrow> therapists db, profile_user_id t = therapist_user_id] of
        [] \<Rightarrow> Inr None
      | [i] \<Rightarrow> Inr (Some i)
      | _ \<Rightarrow> Inl ER_SUBQUERY_NO_1_ROW)"

text \<open>
  The subquery of the \<^verbatim>\<open>NOT IN\<close>: the times of the appointments of that user on
  that date whose status is neither cancelled nor completed.
\<close>

definition booked_times :: "database \<Rightarrow> int \<Rightarrow> sql_date \<Rightarrow> sql_time list" where
  "booked_times db therapist_user_id date =
     [appointment_time a. a \<leftarrow> appointments db,
        therapist_id a = therapist_user_id \<and> appointment_date a = date
        \<and> status a \<noteq> Cancelled \<and> status a \<noteq> Completed]"

definition GetAvailableTimeSlots :: "database \<Rightarrow> int \<Rightarrow> sql_date \<Rightarrow> sql_error + slot_row list" where
  "GetAvailableTimeSlots db therapist_user_id date =
     (let dow = DAYOFWEEK date - 1 in
      case select_therapist_id db therapist_user_id of
        Inl e \<Rightarrow> Inl e
      | Inr tid \<Rightarrow>
          Inr (map (\<lambda>ta. \<lparr>slot_start_time = start_time ta, slot_end_time = end_time ta,
                           slot_time = start_time ta\<rparr>)
                 (sort_key start_time
                    [ta \<leftarrow> therapist_availability db.
                       Some (ta_therapist_id ta) = tid \<and> day_of_week ta = dow
                       \<and> is_available ta
                       \<and> start_time ta \<notin> set (booked_times db therapist_user_id date)])))"

section \<open>The HTTP handlers of \<^verbatim>\<open>server.js\<close>\<close>

text \<open>
  \<^verbatim>\<open>req.user\<close>, as \<^verbatim>\<open>authenticateToken\<close> leaves it: the user id and role of the
  verified token.
\<close>

record actor =
  actor_user_id :: int
  actor_role :: role

text \<open>An optional field of a JSON body: missing, \<^verbatim>\<open>null\<close>, or a string.\<close>

datatype json_field = Absent | Null | Text js_string

text \<open>
  A bind parameter of \<^verbatim>\<open>pool.execute\<close>: \<^verbatim>\<open>null\<close> is SQL NULL, and the driver
  throws on \<^verbatim>\<open>undefined\<close>, which the handlers' \<^verbatim>\<open>catch\<close> receives like any
  statement error.
\<close>

fun bind_parameter :: "json_field \<Rightarrow> sql_error + js_string option" where
  "bind_parameter Absent = Inl ER_BIND_UNDEFINED"
| "bind_parameter Null = Inr None"
| "bind_parameter (Text s) = Inr (Some s)"

datatype response =
  Created_201 int
  | OK_200
  | Validation_failed_400
  | Not_found_404
  | Slot_booked_409
  | Internal_error_500

text \<open>
  The sanitizer \<^verbatim>\<open>trim()\<close> and the validator \<^verbatim>\<open>notEmpty()\<close>. \<^verbatim>\<open>trim()\<close> strips
  what the regular expression class \<^verbatim>\<open>\s\<close> of JavaScript matches: tab, line feed,
  vertical tab, form feed, carriage return, space, U+00A0, U+1680, U+2000 to
  U+200A, U+2028, U+2029, U+202F, U+205F, U+3000 and U+FEFF.
\<close>

definition is_space :: "nat \<Rightarrow> bool" where
  "is_space c =
     (c \<in> set [0x09, 0x0A, 0x0B, 0x0C, 0x0D, 0x20, 0xA0, 0x1680, 0x2028, 0x2029, 0x202F,
                0x205F, 0x3000, 0xFEFF]
      \<or> (0x2000 \<le> c \<and> c \<le> 0x200A))"

definition trim :: "js_string \<Rightarrow> js_string" where
  "trim s = rev (dropWhile is_space (rev (dropWhile is_space s)))"

text \<open>
  The body of \<^verbatim>\<open>POST /api/appointments\<close>. \<^verbatim>\<open>therapist_id\<close> is the integer that
  passed \<^verbatim>\<open>isInt\<close>; the date is the three numbers of a \<^verbatim>\<open>YYYY-MM-DD\<close> string and
  the time the two numbers of an \<^verbatim>\<open>H:MM\<close> string. \<open>b_other_fields\<close> are the keys of
  the body the handler does not destructure (a \<^verbatim>\<open>patient_id\<close>, a \<^verbatim>\<open>status\<close>, ...).
  The validators: \<^verbatim>\<open>isISO8601\<close> (not strict) wants a month from 01 to 12 and a day
  from 01 to 31 after the four digits of the year, whatever the month; the pattern
  of the time wants an hour up to 23 and a minute up to 59; the service type and
  the address must not be empty after \<^verbatim>\<open>trim()\<close>.
\<close>

record create_body =
  b_therapist_id :: int
  b_appointment_date :: sql_date
  b_time_hour :: nat
  b_time_minute :: nat
  b_service_type :: js_string
  b_notes :: json_field
  b_address :: js_string
  b_other_fields :: "(string \<times> string) list"

definition isISO8601 :: "sql_date \<Rightarrow> bool" where
  "isISO8601 d =
     (date_year d \<le> 9999 \<and> 1 \<le> date_month d \<and> date_month d \<le> 12
      \<and> 1 \<le> date_day d \<and> date_day d \<le> 31)"

definition create_validation_ok :: "create_body \<Rightarrow> bool" where
  "create_validation_ok body =
     (isISO8601 (b_appointment_date body)
      \<and> b_time_hour body \<le> 23 \<and> b_time_minute body \<le> 59
      \<and> trim (b_service_type body) \<noteq> [] \<and> trim (b_address body) \<noteq> [])"

text \<open>
  \<^verbatim>\<open>POST /api/appointments\<close>. The handler awaits three statements, and other
  requests may run between them: the therapist lookup reads \<open>db1\<close>, the conflict
  check reads \<open>db2\<close>, the insert runs on \<open>db\<close>. \<open>create_values\<close> is the row of the
  INSERT: the patient is \<^verbatim>\<open>req.user.userId\<close>, the status is the literal
  \<^verbatim>\<open>'scheduled'\<close>, and the columns the statement does not name take their defaults
  (\<^verbatim>\<open>duration_minutes\<close> 60, \<^verbatim>\<open>total_cost\<close> NULL; the id is assigned by the insert).
\<close>

definition create_values :: "actor \<Rightarrow> create_body \<Rightarrow> js_string option \<Rightarrow> appointment_row" where
  "create_values req_user body notes' =
     \<lparr>appointment_id = 0,
      patient_id = actor_user_id req_user,
      therapist_id = b_therapist_id body,
      appointment_date = b_appointment_date body,
      appointment_time = b_time_hour body * 3600 + b_time_minute body * 60,
      service_type = trim (b_service_type body),
      status = Scheduled,
      duration_minutes = Some 60,
      appointment_notes = notes',
      patient_address = trim (b_address body),
      total_cost = None\<rparr>"

text \<open>
  The two SELECT statements of the handler:
  \<^verbatim>\<open>SELECT id FROM users WHERE id = ? AND role = "therapist" AND is_active = 1\<close> and
  \<^verbatim>\<open>SELECT id FROM appointments WHERE therapist_id = ? AND appointment_date = ? AND
  appointment_time = ? AND status NOT IN ('cancelled', 'completed')\<close>.
\<close>

definition select_active_therapist :: "database \<Rightarrow> int \<Rightarrow> user_row list" where
  "select_active_therapist db tid =
     [u \<leftarrow> users db. user_id u = tid \<and> user_role u = Therapist \<and> is_active u]"

definition select_conflicts ::
  "database \<Rightarrow> int \<Rightarrow> sql_date \<Rightarrow> sql_time \<Rightarrow> appointment_row list" where
  "select_conflicts db tid date time =
     [a \<leftarrow> appointments db.
        therapist_id a = tid \<and> appointment_date a = date \<and> appointment_time a = time
        \<and> status a \<noteq> Cancelled \<and> status a \<noteq> Completed]"

definition post_appointments_at ::
  "sql_division \<Rightarrow> database \<Rightarrow> database \<Rightarrow> database \<Rightarrow> actor \<Rightarrow> create_body
   \<Rightarrow> response \<times> database" where
  "post_appointments_at sql_div db1 db2 db req_user body =
     (if \<not> create_validation_ok body then (Validation_failed_400, db)
      else
        let therapist = select_active_therapist db1 (b_therapist_id body)
        in if length therapist = 0 then (Not_found_404, db)
           else
             let conflicts = select_conflicts db2 (b_therapist_id body)
                    (b_appointment_date body)
                    (b_time_hour body * 3600 + b_time_minute body * 60)
             in if length conflicts > 0 then (Slot_booked_409, db)
                else
                  (case bind_parameter (b_notes body) of
                     Inl e \<Rightarrow> (Internal_error_500, db)
                   | Inr notes' \<Rightarrow>
                       (case insert_appointments sql_div db (create_values req_user body notes') of
                          Inl e \<Rightarrow> (Internal_error_500, db)
                        | Inr (db', insertId) \<Rightarrow> (Created_201 insertId, db'))))"

text \<open>The same handler when nothing else runs between its statements.\<close>

definition post_appointments ::
  "sql_division \<Rightarrow> database \<Rightarrow> actor \<Rightarrow> create_body \<Rightarrow> response \<times> database" where
  "post_appointments sql_div db req_user body = post_appointments_at sql_div db db db req_user body"

text \<open>
  \<^verbatim>\<open>PUT /api/appointments/:id/status\<close>. \<open>i\<close> is the number the server reads from
  the \<^verbatim>\<open>:id\<close> segment. The \<^verbatim>\<open>status\<close> of the body is a value that is not an array,
  given by the string the validator compares, or an array, given by the strings of
  its elements. The validator \<^verbatim>\<open>isIn\<close> runs before the handler; on an array it
  checks every element, so an empty array passes. The driver sends an array as
  JSON text, which is no member of the ENUM.
\<close>

datatype status_field = Status_string string | Status_array "string list"

definition recognized_statuses :: "string list" where
  "recognized_statuses =
     [''scheduled'', ''confirmed'', ''in_progress'', ''completed'', ''cancelled'']"

fun status_validation_ok :: "status_field \<Rightarrow> bool" where
  "status_validation_ok (Status_string v) = (v \<in> set recognized_statuses)"
| "status_validation_ok (Status_array vs) = list_all (\<lambda>v. v \<in> set recognized_statuses) vs"

fun enum_of_parameter :: "status_field \<Rightarrow> appointment_status option" where
  "enum_of_parameter (Status_string v) = enum_of_string v"
| "enum_of_parameter (Status_array vs) = None"

definition permitted :: "actor \<Rightarrow> appointment_row \<Rightarrow> bool" where
  "permitted req_user a =
     (patient_id a = actor_user_id req_user \<or> therapist_id a = actor_user_id req_user
      \<or> actor_role req_user = Admin)"

text \<open>
  \<^verbatim>\<open>SELECT * FROM appointments WHERE id = ? AND (patient_id = ? OR therapist_id = ?
  OR ? = 'admin')\<close>, bound to the id, the actor's user id (twice) and the actor's role.
\<close>

definition select_permitted :: "database \<Rightarrow> int \<Rightarrow> actor \<Rightarrow> appointment_row list" where
  "select_permitted db i req_user =
     [a \<leftarrow> appointments db. appointment_id a = i \<and> permitted req_user a]"

definition put_appointment_status ::
  "database \<Rightarrow> actor \<Rightarrow> int \<Rightarrow> status_field \<Rightarrow> json_field \<Rightarrow> response \<times> database" where
  "put_appointment_status db req_user i status' notes' =
     (if \<not> status_validation_ok status' then (Validation_failed_400, db)
      else
        let appointments' = select_permitted db i req_user
        in if length appointments' = 0 then (Not_found_404, db)
           else
             (case (enum_of_parameter status', bind_parameter notes') of
                (Some st, Inr n) \<Rightarrow>
                  (case update_appointments db st n i of
                     Inl e \<Rightarrow> (Internal_error_500, db)
                   | Inr db' \<Rightarrow> (OK_200, db'))
              | _ \<Rightarrow> (Internal_error_500, db)))"

section \<open>Reachable states\<close>

text \<open>
  The states of the system: the schema starts with an empty \<^verbatim>\<open>appointments\<close> table;
  rows are added by \<^verbatim>\<open>INSERT\<close> statements (the seed data of \<^verbatim>\<open>database.sql\<close> and the
  create handler, whatever its earlier reads saw) and changed by the status handler;
  every other route leaves \<^verbatim>\<open>appointments\<close> as it is.
\<close>

inductive reachable :: "sql_division \<Rightarrow> database \<Rightarrow> bool" for sql_div :: sql_division where
  reachable_init: "appointments db = [] \<Longrightarrow> reachable sql_div db"
| reachable_insert:
    "reachable sql_div db \<Longrightarrow> insert_appointments sql_div db row = Inr (db', i)
     \<Longrightarrow> reachable sql_div db'"
| reachable_create:
    "reachable sql_div db \<Longrightarrow> post_appointments_at sql_div db1 db2 db req_user body = (r, db')
     \<Longrightarrow> reachable sql_div db'"
| reachable_status:
    "reachable sql_div db \<Longrightarrow> put_appointment_status db req_user i status' notes' = (r, db')
     \<Longrightarrow> reachable sql_div db'"
| reachable_other:
    "reachable sql_div db \<Longrightarrow> appointments db' = appointments db \<Longrightarrow> reachable sql_div db'"

text \<open>No two appointments that are neither cancelled nor completed share a slot.\<close>

definition blocks_slot :: "appointment_row \<Rightarrow> bool" where
  "blocks_slot a = (status a \<noteq> Cancelled \<and> status a \<noteq> Completed)"

definition no_double_booking :: "database \<Rightarrow> bool" where
  "no_double_booking db = distinct (map unique_appointment (filter blocks_slot (appointments db)))"

text \<open>What the unique key guarantees of every stored table.\<close>

definition unique_key_holds :: "database \<Rightarrow> bool" where
  "unique_key_holds db = distinct (map unique_appointment (appointments db))"

section \<open>Example data\<close>

text \<open>
  A small database in the shape of the seed data: an admin (user 1), a therapist
  (user 2, profile 1, 200000.00 an hour, Mondays from 08:00 and from 09:00), and two
  patients (users 6 and 7). 2024-06-10 is a Monday.
\<close>

definition monday_2024_06_10 :: sql_date where
  "monday_2024_06_10 = \<lparr>date_year = 2024, date_month = 6, date_day = 10\<rparr>"

definition seed_db :: database where
  "seed_db =
     \<lparr>users = [\<lparr>user_id = 1, user_role = Admin, is_active = True\<rparr>,
               \<lparr>user_id = 2, user_role = Therapist, is_active = True\<rparr>,
               \<lparr>user_id = 6, user_role = Patient, is_active = True\<rparr>,
               \<lparr>user_id = 7, user_role = Patient, is_active = True\<rparr>],
      therapists = [\<lparr>therapist_pk = 1, profile_user_id = 2, hourly_rate = 20000000\<rparr>],
      therapist_availability =
        [\<lparr>ta_therapist_id = 1, day_of_week = 1, start_time = 32400, end_time = 61200,
          is_available = True\<rparr>,
         \<lparr>ta_therapist_id = 1, day_of_week = 1, start_time = 28800, end_time = 32400,
          is_available = True\<rparr>,
         \<lparr>ta_therapist_id = 1, day_of_week = 2, start_time = 28800, end_time = 61200,
          is_available = True\<rparr>],
      appointments = [],
      notifications = [],
      audit_logs = [],
      appointments_auto_increment = 1\<rparr>"


definition therapist_2 :: actor where
  "therapist_2 = \<lparr>actor_user_id = 2, actor_role = Therapist\<rparr>"

definition patient_6 :: actor where
  "patient_6 = \<lparr>actor_user_id = 6, actor_role = Patient\<rparr>"

definition patient_7 :: actor where
  "patient_7 = \<lparr>actor_user_id = 7, actor_role = Patient\<rparr>"

definition ortopedi_0900 :: create_body where
  "ortopedi_0900 =
     \<lparr>b_therapist_id = 2, b_appointment_date = monday_2024_06_10,
      b_time_hour = 9, b_time_minute = 0, b_service_type = js ''Ortopedi'',
      b_notes = Null, b_address = js ''Jl. Sudirman No. 123'', b_other_fields = []\<rparr>"

text \<open>The appointment that request creates, and the database it leaves.\<close>

definition booked_0900 :: appointment_row where
  "booked_0900 =
     \<lparr>appointment_id = 1, patient_id = 6, therapist_id = 2,
      appointment_date = monday_2024_06_10, appointment_time = 32400,
      service_type = js ''Ortopedi'', status = Scheduled, duration_minutes = Some 60,
      appointment_notes = None, patient_address = js ''Jl. Sudirman No. 123'',
      total_cost = Some 20000000\<rparr>"

definition booked_db :: database where
  "booked_db =
     seed_db\<lparr>appointments := [booked_0900],
             notifications :=
               [\<lparr>n_user_id = 2, n_title = ''Appointment Baru'',
                 n_message = ''Anda memiliki appointment baru pada 10/06/2024 jam 09:00'',
                 n_type = ''appointment'', n_related_id = Some 1,
                 n_related_type = Some ''appointment''\<rparr>,
                \<lparr>n_user_id = 6, n_title = ''Appointment Terkonfirmasi'',
                 n_message = ''Appointment Anda telah terjadwal pada 10/06/2024 jam 09:00'',
                 n_type = ''appointment'', n_related_id = Some 1,
                 n_related_type = Some ''appointment''\<rparr>],
             appointments_auto_increment := 2\<rparr>"






text \<open>The same database after that appointment was cancelled.\<close>

definition cancelled_db :: database where
  "cancelled_db = booked_db\<lparr>appointments := [booked_0900\<lparr>status := Cancelled\<rparr>]\<rparr>"

subsection \<open>Digits\<close>

lemma digit_mod [simp]: "digit (n mod 10) = digit n"
  by (simp add: digit_def)

lemma digit_0: "digit 0 = CHR ''0''"
  by (simp add: digit_def)

lemma of_char_digit: "of_char (digit n) = (48 + n mod 10 :: nat)"
proof -
  define k where "k = n mod 10"
  have "k < 10" by (simp add: k_def)
  then have "k = 0 \<or> k = 1 \<or> k = 2 \<or> k = 3 \<or> k = 4 \<or> k = 5 \<or> k = 6 \<or> k = 7 \<or> k = 8 \<or> k = 9"
    by arith
  then have "of_char (''0123456789'' ! k) = (48 + k :: nat)"
    by (elim disjE) simp_all
  then show ?thesis
    by (simp add: digit_def k_def)
qed

lemma decimal_digits_less_10: "n < 10 \<Longrightarrow> decimal_digits n = [digit n]"
  by (subst decimal_digits.simps) simp

lemma decimal_digits_step: "10 \<le> n \<Longrightarrow> decimal_digits n = decimal_digits (n div 10) @ [digit n]"
  by (subst decimal_digits.simps) simp

lemma replicate_0s:
  "replicate 2 x = [x, x]" "replicate 3 x = [x, x, x]"
  by (simp_all add: numeral_2_eq_2 numeral_3_eq_3)

lemma two_digits:
  assumes "n < 100"
  shows "zero_pad 2 (decimal_digits n) = [digit (n div 10), digit n]"
proof (cases "n < 10")
  case True
  then show ?thesis by (simp add: zero_pad_def decimal_digits_less_10 digit_0)
next
  case False
  then have "n div 10 < 10" "10 \<le> n" using assms by simp_all
  then show ?thesis
    by (simp add: zero_pad_def decimal_digits_step decimal_digits_less_10)
qed

lemma four_digits:
  assumes "n < 10000"
  shows "zero_pad 4 (decimal_digits n)
    = [digit (n div 1000), digit (n div 100), digit (n div 10), digit n]"
proof -
  have h: "n div 10 div 10 = n div 100"
    using div_mult2_eq [of n 10 10] by simp
  have t: "n div 100 div 10 = n div 1000"
    using div_mult2_eq [of n 100 10] by simp
  consider "n < 10" | "10 \<le> n" "n < 100" | "100 \<le> n" "n < 1000" | "1000 \<le> n"
    by linarith
  then show ?thesis
  proof cases
    case 1
    then have "decimal_digits n = [digit n]" by (rule decimal_digits_less_10)
    moreover have "n div 1000 = 0" "n div 100 = 0" "n div 10 = 0" using 1 by simp_all
    ultimately show ?thesis
      by (simp add: zero_pad_def digit_0 replicate_0s)
  next
    case 2
    then have "decimal_digits n = [digit (n div 10), digit n]"
      by (simp add: decimal_digits_step decimal_digits_less_10)
    moreover have "n div 1000 = 0" "n div 100 = 0" using 2 by simp_all
    ultimately show ?thesis
      by (simp add: zero_pad_def digit_0 replicate_0s)
  next
    case 3
    then have a: "decimal_digits n = decimal_digits (n div 10) @ [digit n]"
      by (simp add: decimal_digits_step)
    have "10 \<le> n div 10" using 3 by simp
    then have b: "decimal_digits (n div 10) = decimal_digits (n div 100) @ [digit (n div 10)]"
      using decimal_digits_step [of "n div 10"] by (simp add: h)
    have "n div 100 < 10" using 3 by simp
    then have c: "decimal_digits (n div 100) = [digit (n div 100)]"
      by (rule decimal_digits_less_10)
    have "n div 1000 = 0" using 3 by simp
    then show ?thesis
      by (simp add: a b c zero_pad_def digit_0)
  next
    case 4
    then have a: "decimal_digits n = decimal_digits (n div 10) @ [digit n]"
      by (simp add: decimal_digits_step)
    have "10 \<le> n div 10" using 4 by simp
    then have b: "decimal_digits (n div 10) = decimal_digits (n div 100) @ [digit (n div 10)]"
      using decimal_digits_step [of "n div 10"] by (simp add: h)
    have "10 \<le> n div 100" using 4 by simp
    then have c: "decimal_digits (n div 100) = decimal_digits (n div 1000) @ [digit (n div 100)]"
      using decimal_digits_step [of "n div 100"] by (simp add: t)
    have "n div 1000 < 10" using assms by simp
    then have d: "decimal_digits (n div 1000) = [digit (n div 1000)]"
      by (rule decimal_digits_less_10)
    show ?thesis
      by (simp add: a b c d zero_pad_def)
  qed
qed

text \<open>
  The two formats, digit by digit, in character codes (48 is the digit 0, 47 the
  slash, 58 the colon).
\<close>

lemma DATE_FORMAT_dmY_codes:
  assumes "date_day d < 100" and "date_month d < 100" and "date_year d < 10000"
  shows "(map of_char (DATE_FORMAT_dmY d) :: nat list) =
     [48 + date_day d div 10, 48 + date_day d mod 10, 47,
      48 + date_month d div 10, 48 + date_month d mod 10, 47,
      48 + date_year d div 1000, 48 + date_year d div 100 mod 10,
      48 + date_year d div 10 mod 10, 48 + date_year d mod 10]"
proof -
  have "date_day d div 10 < 10" "date_month d div 10 < 10" "date_year d div 1000 < 10"
    using assms by simp_all
  then have l: "date_day d div 10 mod 10 = date_day d div 10"
    "date_month d div 10 mod 10 = date_month d div 10"
    "date_year d div 1000 mod 10 = date_year d div 1000"
    by simp_all
  show ?thesis
    by (simp add: DATE_FORMAT_dmY_def two_digits [OF assms(1)] two_digits [OF assms(2)]
        four_digits [OF assms(3)] of_char_digit l)
qed

lemma TIME_FORMAT_Hi_codes:
  assumes "h < 100" and "m < 60"
  shows "(map of_char (TIME_FORMAT_Hi (h * 3600 + m * 60)) :: nat list) =
     [48 + h div 10, 48 + h mod 10, 58, 48 + m div 10, 48 + m mod 10]"
proof -
  have "h div 10 < 10" "m div 10 < 10"
    using assms by simp_all
  then have l: "h div 10 mod 10 = h div 10" "m div 10 mod 10 = m div 10"
    by simp_all
  have a: "(h * 3600 + m * 60) div 3600 = h"
    using assms(2) by simp
  have "(h * 3600 + m * 60) div 60 = h * 60 + m"
    by simp
  then have b: "(h * 3600 + m * 60) div 60 mod 60 = m"
    using assms(2) by simp
  have m: "m < 100" using assms(2) by simp
  show ?thesis
    unfolding TIME_FORMAT_Hi_def a b
    by (simp add: two_digits [OF assms(1)] two_digits [OF m] of_char_digit l)
qed

subsection \<open>The insert and the create handler, case by case\<close>

lemma calculate_appointment_cost_fields:
  assumes "calculate_appointment_cost q db row = Inr row'"
  shows "row' = row\<lparr>total_cost := total_cost row'\<rparr>"
  using assms
  by (auto simp: calculate_appointment_cost_def split: sum.splits option.splits prod.splits)

lemma insert_appointments_Inr:
  assumes "insert_appointments q db row = Inr (db', i)"
  shows "\<exists>c. i = appointments_auto_increment db
     \<and> db' = db\<lparr>appointments := appointments db @ [row\<lparr>total_cost := c, appointment_id := i\<rparr>],
               appointments_auto_increment := i + 1,
               notifications := notifications db @
                 [therapist_notification (row\<lparr>total_cost := c, appointment_id := i\<rparr>),
                  patient_notification (row\<lparr>total_cost := c, appointment_id := i\<rparr>)]\<rparr>
     \<and> calculate_appointment_cost q db row = Inr (row\<lparr>total_cost := c\<rparr>)
     \<and> unique_appointment row \<notin> set (map unique_appointment (appointments db))
     \<and> i \<notin> set (map appointment_id (appointments db))
     \<and> user_exists db (patient_id row) \<and> user_exists db (therapist_id row)
     \<and> storable_date (appointment_date row)"
proof -
  obtain row' where c: "calculate_appointment_cost q db row = Inr row'"
    using assms by (auto simp: insert_appointments_def split: sum.splits if_splits)
  obtain c0 where f: "row' = row\<lparr>total_cost := c0\<rparr>"
    using calculate_appointment_cost_fields [OF c] by blast
  have u: "unique_appointment (row\<lparr>total_cost := c0, appointment_id := appointments_auto_increment db\<rparr>)
      = unique_appointment row"
    by (simp add: unique_appointment_def)
  show ?thesis
    using assms c u unfolding f
    by (intro exI [of _ c0])
      (auto simp: insert_appointments_def Let_def create_appointment_notification_def
        user_exists_def split: if_splits)
qed

lemma insert_appointments_InrI:
  assumes "calculate_appointment_cost q db row = Inr (row\<lparr>total_cost := c\<rparr>)"
    and "appointments_auto_increment db \<notin> set (map appointment_id (appointments db))"
    and "user_exists db (patient_id row)" and "user_exists db (therapist_id row)"
    and "unique_appointment row \<notin> set (map unique_appointment (appointments db))"
    and "storable_date (appointment_date row)"
  shows "insert_appointments q db row =
     Inr (db\<lparr>appointments := appointments db @
               [row\<lparr>total_cost := c, appointment_id := appointments_auto_increment db\<rparr>],
             appointments_auto_increment := appointments_auto_increment db + 1,
             notifications := notifications db @
               [therapist_notification (row\<lparr>total_cost := c, appointment_id := appointments_auto_increment db\<rparr>),
                patient_notification (row\<lparr>total_cost := c, appointment_id := appointments_auto_increment db\<rparr>)]\<rparr>,
          appointments_auto_increment db)"
proof -
  have u: "unique_appointment (row\<lparr>total_cost := c, appointment_id := appointments_auto_increment db\<rparr>)
      = unique_appointment row"
    by (simp add: unique_appointment_def)
  show ?thesis
    using assms u
    by (simp add: insert_appointments_def Let_def create_appointment_notification_def user_exists_def)
qed

lemma post_appointments_at_Created:
  assumes "post_appointments_at q db1 db2 db req_user body = (Created_201 i, db')"
  shows "create_validation_ok body"
    and "select_active_therapist db1 (b_therapist_id body) \<noteq> []"
    and "select_conflicts db2 (b_therapist_id body) (b_appointment_date body)
           (b_time_hour body * 3600 + b_time_minute body * 60) = []"
    and "\<exists>n. bind_parameter (b_notes body) = Inr n
           \<and> insert_appointments q db (create_values req_user body n) = Inr (db', i)"
  using assms
  by (auto simp: post_appointments_at_def Let_def split: if_splits sum.splits prod.splits)

lemma post_appointments_at_CreatedI:
  assumes "create_validation_ok body"
    and "select_active_therapist db1 (b_therapist_id body) \<noteq> []"
    and "select_conflicts db2 (b_therapist_id body) (b_appointment_date body)
           (b_time_hour body * 3600 + b_time_minute body * 60) = []"
    and "bind_parameter (b_notes body) = Inr n"
    and "insert_appointments q db (create_values req_user body n) = Inr (db', i)"
  shows "post_appointments_at q db1 db2 db req_user body = (Created_201 i, db')"
  using assms by (simp add: post_appointments_at_def Let_def)

lemma post_appointments_at_failed:
  assumes "post_appointments_at q db1 db2 db req_user body = (r, db')"
    and "\<forall>i. r \<noteq> Created_201 i"
  shows "db' = db"
  using assms
  by (auto simp: post_appointments_at_def Let_def split: if_splits sum.splits prod.splits)


subsection \<open>The example request, step by step\<close>

lemma trim_examples:
  "trim (js ''Ortopedi'') = js ''Ortopedi''"
  "trim (js ''Jl. Sudirman No. 123'') = js ''Jl. Sudirman No. 123''"
  by (simp_all add: js_def trim_def is_space_def)

lemma storable_2024_06_10: "storable_date monday_2024_06_10"
  by (simp add: storable_date_def days_in_month_def monday_2024_06_10_def)

lemma ortopedi_0900_valid: "create_validation_ok ortopedi_0900"
  by (simp add: create_validation_ok_def ortopedi_0900_def trim_examples isISO8601_def
      monday_2024_06_10_def)
    (simp add: js_def)

lemma ortopedi_0900_values:
  "create_values u ortopedi_0900 None =
     booked_0900\<lparr>appointment_id := 0, patient_id := actor_user_id u, total_cost := None\<rparr>"
  by (simp add: create_values_def ortopedi_0900_def booked_0900_def trim_examples)

lemma seed_db_therapist_2: "select_active_therapist seed_db (b_therapist_id ortopedi_0900) \<noteq> []"
  by (simp add: select_active_therapist_def seed_db_def ortopedi_0900_def)

lemma seed_db_rate: "select_therapist_rate (seed_db\<lparr>appointments := as\<rparr>) 2 = Inr (Some 20000000)"
  by (simp add: select_therapist_rate_def seed_db_def)

lemma seed_db_cost:
  "calculate_appointment_cost (div_scaled 4) (seed_db\<lparr>appointments := as\<rparr>)
     (booked_0900\<lparr>appointment_id := 0, patient_id := p, total_cost := None\<rparr>)
   = Inr (booked_0900\<lparr>appointment_id := 0, patient_id := p, total_cost := None\<rparr>\<lparr>total_cost := Some 20000000\<rparr>)"
  by (simp add: calculate_appointment_cost_def seed_db_rate booked_0900_def
      store_decimal_10_2_def decimal_times_def div_scaled_def round_div_def)

lemma format_2024_06_10: "DATE_FORMAT_dmY monday_2024_06_10 = ''10/06/2024''"
  by (simp add: DATE_FORMAT_dmY_def two_digits four_digits digit_def monday_2024_06_10_def)

lemma format_0900: "TIME_FORMAT_Hi 32400 = ''09:00''"
  by (simp add: TIME_FORMAT_Hi_def two_digits digit_def)

lemma seed_db_insert:
  "insert_appointments (div_scaled 4) seed_db (create_values patient_6 ortopedi_0900 None)
     = Inr (booked_db, 1)"
proof -
  let ?row = "booked_0900\<lparr>appointment_id := 0, patient_id := 6, total_cost := None\<rparr>"
  have c: "calculate_appointment_cost (div_scaled 4) seed_db ?row
             = Inr (?row\<lparr>total_cost := Some 20000000\<rparr>)"
    using seed_db_cost [of "[]" 6] by (simp add: seed_db_def)
  have "insert_appointments (div_scaled 4) seed_db ?row = Inr (booked_db, 1)"
    by (subst insert_appointments_InrI [OF c])
      (simp_all add: seed_db_def user_exists_def booked_0900_def unique_appointment_def
        booked_db_def therapist_notification_def patient_notification_def
        format_2024_06_10 format_0900 storable_2024_06_10)
  then show ?thesis
    by (simp add: ortopedi_0900_values patient_6_def)
qed

lemma seed_db_create:
  "post_appointments_at (div_scaled 4) seed_db seed_db seed_db patient_6 ortopedi_0900
     = (Created_201 1, booked_db)"
proof (rule post_appointments_at_CreatedI)
  show "create_validation_ok ortopedi_0900" by (rule ortopedi_0900_valid)
  show "select_active_therapist seed_db (b_therapist_id ortopedi_0900) \<noteq> []"
    by (rule seed_db_therapist_2)
  show "select_conflicts seed_db (b_therapist_id ortopedi_0900) (b_appointment_date ortopedi_0900)
          (b_time_hour ortopedi_0900 * 3600 + b_time_minute ortopedi_0900 * 60) = []"
    by (simp add: select_conflicts_def seed_db_def)
  show "bind_parameter (b_notes ortopedi_0900) = Inr None"
    by (simp add: ortopedi_0900_def)
  show "insert_appointments (div_scaled 4) seed_db (create_values patient_6 ortopedi_0900 None)
          = Inr (booked_db, 1)"
    by (rule seed_db_insert)
qed


section \<open>Creating an appointment\<close>

text \<open>
  C6. Every successful \<^verbatim>\<open>POST /api/appointments\<close> adds exactly one row to
  \<^verbatim>\<open>appointments\<close>, with the returned id and status \<^verbatim>\<open>scheduled\<close>, and exactly two
  rows to \<^verbatim>\<open>notifications\<close>: first one for the therapist (\<^verbatim>\<open>Appointment Baru\<close>, the
  date as dd/mm/yyyy and the time as HH:MM), then one for the patient
  (\<^verbatim>\<open>Appointment Terkonfirmasi\<close>, same date and time), both with the new
  appointment's id as \<^verbatim>\<open>related_id\<close>. Nothing else is written but the id counter.
  The formatted date is, character by character, the two digits of the day, a
  slash, the two digits of the month, a slash and the four digits of the year; the
  formatted time is the two digits of the hour, a colon and the two digits of the
  minute (in character codes: 48 is the digit 0, 47 the slash, 58 the colon).
\<close>

theorem create_inserts_one_appointment_and_two_notifications:
  assumes "post_appointments_at sql_div db1 db2 db req_user body = (Created_201 aid, db')"
  shows "\<exists>NEW.
      appointments db' = appointments db @ [NEW]
      \<and> appointment_id NEW = aid \<and> status NEW = Scheduled
      \<and> therapist_id NEW = b_therapist_id body
      \<and> appointment_date NEW = b_appointment_date body
      \<and> appointment_time NEW = b_time_hour body * 3600 + b_time_minute body * 60
      \<and> notifications db' = notifications db @
          [\<lparr>n_user_id = b_therapist_id body,
            n_title = ''Appointment Baru'',
            n_message = ''Anda memiliki appointment baru pada '' @
              DATE_FORMAT_dmY (b_appointment_date body) @ '' jam '' @
              TIME_FORMAT_Hi (b_time_hour body * 3600 + b_time_minute body * 60),
            n_type = ''appointment'', n_related_id = Some aid,
            n_related_type = Some ''appointment''\<rparr>,
           \<lparr>n_user_id = actor_user_id req_user,
            n_title = ''Appointment Terkonfirmasi'',
            n_message = ''Appointment Anda telah terjadwal pada '' @
              DATE_FORMAT_dmY (b_appointment_date body) @ '' jam '' @
              TIME_FORMAT_Hi (b_time_hour body * 3600 + b_time_minute body * 60),
            n_type = ''appointment'', n_related_id = Some aid,
            n_related_type = Some ''appointment''\<rparr>]
      \<and> (map of_char (DATE_FORMAT_dmY (b_appointment_date body)) :: nat list) =
          [48 + date_day (b_appointment_date body) div 10,
           48 + date_day (b_appointment_date body) mod 10, 47,
           48 + date_month (b_appointment_date body) div 10,
           48 + date_month (b_appointment_date body) mod 10, 47,
           48 + date_year (b_appointment_date body) div 1000,
           48 + date_year (b_appointment_date body) div 100 mod 10,
           48 + date_year (b_appointment_date body) div 10 mod 10,
           48 + date_year (b_appointment_date body) mod 10]
      \<and> (map of_char (TIME_FORMAT_Hi (b_time_hour body * 3600 + b_time_minute body * 60))
            :: nat list) =
          [48 + b_time_hour body div 10, 48 + b_time_hour body mod 10, 58,
           48 + b_time_minute body div 10, 48 + b_time_minute body mod 10]
      \<and> audit_logs db' = audit_logs db \<and> users db' = users db
      \<and> therapists db' = therapists db
      \<and> therapist_availability db' = therapist_availability db"
proof -
  have v: "create_validation_ok body"
    by (rule post_appointments_at_Created(1) [OF assms])
  then have "date_day (b_appointment_date body) < 100" "date_month (b_appointment_date body) < 100"
    "date_year (b_appointment_date body) < 10000"
    by (simp_all add: create_validation_ok_def isISO8601_def)
  then have date: "(map of_char (DATE_FORMAT_dmY (b_appointment_date body)) :: nat list) =
          [48 + date_day (b_appointment_date body) div 10,
           48 + date_day (b_appointment_date body) mod 10, 47,
           48 + date_month (b_appointment_date body) div 10,
           48 + date_month (b_appointment_date body) mod 10, 47,
           48 + date_year (b_appointment_date body) div 1000,
           48 + date_year (b_appointment_date body) div 100 mod 10,
           48 + date_year (b_appointment_date body) div 10 mod 10,
           48 + date_year (b_appointment_date body) mod 10]"
    by (rule DATE_FORMAT_dmY_codes)
  have "b_time_hour body < 100" "b_time_minute body < 60"
    using v by (simp_all add: create_validation_ok_def)
  then have time: "(map of_char (TIME_FORMAT_Hi (b_time_hour body * 3600 + b_time_minute body * 60))
            :: nat list) =
          [48 + b_time_hour body div 10, 48 + b_time_hour body mod 10, 58,
           48 + b_time_minute body div 10, 48 + b_time_minute body mod 10]"
    by (rule TIME_FORMAT_Hi_codes)
  obtain n where ins: "insert_appointments sql_div db (create_values req_user body n) = Inr (db', aid)"
    using post_appointments_at_Created(4) [OF assms] by blast
  obtain c where db': "db' = db\<lparr>appointments := appointments db @
          [create_values req_user body n\<lparr>total_cost := c, appointment_id := aid\<rparr>],
        appointments_auto_increment := aid + 1,
        notifications := notifications db @
          [therapist_notification (create_values req_user body n\<lparr>total_cost := c, appointment_id := aid\<rparr>),
           patient_notification (create_values req_user body n\<lparr>total_cost := c, appointment_id := aid\<rparr>)]\<rparr>"
    using insert_appointments_Inr [OF ins] by blast
  have rows: "appointments db' = appointments db @
          [create_values req_user body n\<lparr>total_cost := c, appointment_id := aid\<rparr>]"
    "notifications db' = notifications db @
          [\<lparr>n_user_id = b_therapist_id body,
            n_title = ''Appointment Baru'',
            n_message = ''Anda memiliki appointment baru pada '' @
              DATE_FORMAT_dmY (b_appointment_date body) @ '' jam '' @
              TIME_FORMAT_Hi (b_time_hour body * 3600 + b_time_minute body * 60),
            n_type = ''appointment'', n_related_id = Some aid,
            n_related_type = Some ''appointment''\<rparr>,
           \<lparr>n_user_id = actor_user_id req_user,
            n_title = ''Appointment Terkonfirmasi'',
            n_message = ''Appointment Anda telah terjadwal pada '' @
              DATE_FORMAT_dmY (b_appointment_date body) @ '' jam '' @
              TIME_FORMAT_Hi (b_time_hour body * 3600 + b_time_minute body * 60),
            n_type = ''appointment'', n_related_id = Some aid,
            n_related_type = Some ''appointment''\<rparr>]"
    "audit_logs db' = audit_logs db" "users db' = users db"
    "therapists db' = therapists db"
    "therapist_availability db' = therapist_availability db"
    by (simp_all add: db' create_values_def therapist_notification_def patient_notification_def)
  have new: "appointment_id (create_values req_user body n\<lparr>total_cost := c, appointment_id := aid\<rparr>) = aid"
    "status (create_values req_user body n\<lparr>total_cost := c, appointment_id := aid\<rparr>) = Scheduled"
    "therapist_id (create_values req_user body n\<lparr>total_cost := c, appointment_id := aid\<rparr>)
       = b_therapist_id body"
    "appointment_date (create_values req_user body n\<lparr>total_cost := c, appointment_id := aid\<rparr>)
       = b_appointment_date body"
    "appointment_time (create_values req_user body n\<lparr>total_cost := c, appointment_id := aid\<rparr>)
       = b_time_hour body * 3600 + b_time_minute body * 60"
    by (simp_all add: create_values_def)
  show ?thesis
    by (intro exI [of _ "create_values req_user body n\<lparr>total_cost := c, appointment_id := aid\<rparr>"]
        conjI rows new date time)
qed

theorem create_inserts_one_appointment_and_two_notifications_witness:
  "post_appointments_at (div_scaled 4) seed_db seed_db seed_db patient_6 ortopedi_0900
     = (Created_201 1, booked_db)
   \<and> appointments booked_db = appointments seed_db @ [booked_0900]
   \<and> status booked_0900 = Scheduled
   \<and> map n_user_id (notifications booked_db) = map n_user_id (notifications seed_db) @ [2, 6]
   \<and> map n_related_id (notifications booked_db) = [Some 1, Some 1]
   \<and> map n_message (notifications booked_db) =
        [''Anda memiliki appointment baru pada 10/06/2024 jam 09:00'',
         ''Appointment Anda telah terjadwal pada 10/06/2024 jam 09:00'']
   \<and> (map of_char (DATE_FORMAT_dmY monday_2024_06_10) :: nat list)
        = [49, 48, 47, 48, 54, 47, 50, 48, 50, 52]
   \<and> (map of_char (TIME_FORMAT_Hi 32400) :: nat list) = [48, 57, 58, 48, 48]"
proof -
  note t = create_inserts_one_appointment_and_two_notifications [OF seed_db_create]
  have "\<exists>NEW. appointments booked_db = appointments seed_db @ [NEW] \<and> appointment_id NEW = 1
      \<and> status NEW = Scheduled"
    using t by blast
  then have "appointments booked_db = appointments seed_db @ [booked_0900]
      \<and> status booked_0900 = Scheduled"
    by (simp add: booked_db_def seed_db_def)
  moreover have "(map of_char (DATE_FORMAT_dmY (b_appointment_date ortopedi_0900)) :: nat list) =
          [48 + date_day (b_appointment_date ortopedi_0900) div 10,
           48 + date_day (b_appointment_date ortopedi_0900) mod 10, 47,
           48 + date_month (b_appointment_date ortopedi_0900) div 10,
           48 + date_month (b_appointment_date ortopedi_0900) mod 10, 47,
           48 + date_year (b_appointment_date ortopedi_0900) div 1000,
           48 + date_year (b_appointment_date ortopedi_0900) div 100 mod 10,
           48 + date_year (b_appointment_date ortopedi_0900) div 10 mod 10,
           48 + date_year (b_appointment_date ortopedi_0900) mod 10]"
    using t by (elim exE conjE)
  then have "(map of_char (DATE_FORMAT_dmY monday_2024_06_10) :: nat list)
        = [49, 48, 47, 48, 54, 47, 50, 48, 50, 52]"
    by (simp add: ortopedi_0900_def monday_2024_06_10_def)
  moreover have "(map of_char (TIME_FORMAT_Hi
          (b_time_hour ortopedi_0900 * 3600 + b_time_minute ortopedi_0900 * 60)) :: nat list) =
          [48 + b_time_hour ortopedi_0900 div 10, 48 + b_time_hour ortopedi_0900 mod 10, 58,
           48 + b_time_minute ortopedi_0900 div 10, 48 + b_time_minute ortopedi_0900 mod 10]"
    using t by (elim exE conjE)
  then have "(map of_char (TIME_FORMAT_Hi 32400) :: nat list) = [48, 57, 58, 48, 48]"
    by (simp add: ortopedi_0900_def)
  moreover have "map n_user_id (notifications booked_db)
        = map n_user_id (notifications seed_db) @ [2, 6]"
    and "map n_related_id (notifications booked_db) = [Some 1, Some 1]"
    and "map n_message (notifications booked_db) =
        [''Anda memiliki appointment baru pada 10/06/2024 jam 09:00'',
         ''Appointment Anda telah terjadwal pada 10/06/2024 jam 09:00'']"
    by (simp_all add: booked_db_def seed_db_def)
  ultimately show ?thesis
    by (simp add: seed_db_create)
qed

text \<open>
  C10. The patient of a created appointment is the authenticated user: whatever the
  actor's role, the new row's \<^verbatim>\<open>patient_id\<close> is \<^verbatim>\<open>req.user.userId\<close>, and no other key
  of the request body (a \<^verbatim>\<open>patient_id\<close>, say) changes what the handler does.
\<close>

theorem created_appointment_patient_is_actor:
  "(post_appointments_at sql_div db1 db2 db req_user body = (Created_201 aid, db') \<longrightarrow>
      (\<exists>NEW. appointments db' = appointments db @ [NEW] \<and> appointment_id NEW = aid
         \<and> patient_id NEW = actor_user_id req_user))
   \<and> post_appointments_at sql_div db1 db2 db req_user (body\<lparr>b_other_fields := others\<rparr>)
       = post_appointments_at sql_div db1 db2 db req_user body"
proof (intro conjI impI)
  assume a: "post_appointments_at sql_div db1 db2 db req_user body = (Created_201 aid, db')"
  obtain n where ins: "insert_appointments sql_div db (create_values req_user body n) = Inr (db', aid)"
    using post_appointments_at_Created(4) [OF a] by blast
  obtain c where db': "appointments db' = appointments db @
          [create_values req_user body n\<lparr>total_cost := c, appointment_id := aid\<rparr>]"
    using insert_appointments_Inr [OF ins] by auto
  show "\<exists>NEW. appointments db' = appointments db @ [NEW] \<and> appointment_id NEW = aid
         \<and> patient_id NEW = actor_user_id req_user"
    by (rule exI [of _ "create_values req_user body n\<lparr>total_cost := c, appointment_id := aid\<rparr>"])
      (simp add: db' create_values_def)
next
  show "post_appointments_at sql_div db1 db2 db req_user (body\<lparr>b_other_fields := others\<rparr>)
       = post_appointments_at sql_div db1 db2 db req_user body"
  proof -
    have v: "create_values req_user (body\<lparr>b_other_fields := others\<rparr>) = create_values req_user body"
      by (rule ext) (simp add: create_values_def)
    show ?thesis
      unfolding post_appointments_at_def v by (simp add: create_validation_ok_def)
  qed
qed

theorem created_appointment_patient_is_actor_witness:
  "post_appointments_at (div_scaled 4) seed_db seed_db seed_db patient_6
       (ortopedi_0900\<lparr>b_other_fields := [(''patient_id'', ''7'')]\<rparr>)
     = (Created_201 1, booked_db)
   \<and> map patient_id (appointments booked_db) = [actor_user_id patient_6]"
proof -
  have "post_appointments_at (div_scaled 4) seed_db seed_db seed_db patient_6
       (ortopedi_0900\<lparr>b_other_fields := [(''patient_id'', ''7'')]\<rparr>)
     = post_appointments_at (div_scaled 4) seed_db seed_db seed_db patient_6 ortopedi_0900"
    using created_appointment_patient_is_actor
      [of "div_scaled 4" seed_db seed_db seed_db patient_6 ortopedi_0900 1 booked_db
        "[(''patient_id'', ''7'')]"]
    by (rule conjunct2)
  moreover have "map patient_id (appointments booked_db) = [actor_user_id patient_6]"
    by (simp add: booked_db_def booked_0900_def patient_6_def)
  ultimately show ?thesis
    by (simp add: seed_db_create)
qed

section \<open>Updating the status of an appointment\<close>

lemma recognized_status_enum:
  assumes "s \<in> set recognized_statuses"
  shows "\<exists>st. enum_of_string s = Some st \<and> status_name st = s \<and> st \<noteq> No_show"
  using assms by (auto simp: recognized_statuses_def enum_of_string_def)

lemma user_exists_audit_logs [simp]:
  "user_exists (db\<lparr>audit_logs := x\<rparr>) i = user_exists db i"
  by (simp add: user_exists_def)

lemma user_exists_appointments [simp]:
  "user_exists (db\<lparr>appointments := x\<rparr>) i = user_exists db i"
  by (simp add: user_exists_def)

lemma after_update_each_Inr:
  assumes "after_update_each db ps = Inr db'"
  shows "db' = db\<lparr>audit_logs := audit_logs db @
           [status_change_entry (fst p) (snd p). p \<leftarrow> ps, status (fst p) \<noteq> status (snd p)]\<rparr>"
  using assms
proof (induction ps arbitrary: db)
  case Nil
  then show ?case by simp
next
  case (Cons p ps)
  obtain OLD NEW where p: "p = (OLD, NEW)" by (cases p)
  from Cons.prems obtain db1 where
    l: "log_appointment_changes db OLD NEW = Inr db1" and r: "after_update_each db1 ps = Inr db'"
    by (auto simp: p split: sum.splits)
  have "db1 = db\<lparr>audit_logs := audit_logs db @
          (if status OLD \<noteq> status NEW then [status_change_entry OLD NEW] else [])\<rparr>"
    using l by (auto simp: log_appointment_changes_def split: if_splits)
  then show ?case
    using Cons.IH [OF r] by (simp add: p)
qed


lemma status_changes_of_updated:
  "[status_change_entry (fst p) (snd p).
      p \<leftarrow> [(OLD, set_status_and_notes st n OLD). OLD \<leftarrow> xs, appointment_id OLD = i],
      status (fst p) \<noteq> status (snd p)]
   = [status_change_entry OLD (set_status_and_notes st n OLD).
        OLD \<leftarrow> xs, appointment_id OLD = i \<and> status OLD \<noteq> st]"
  by (induction xs) (auto simp: set_status_and_notes_def)

lemma update_appointments_Inr:
  assumes "update_appointments db st n i = Inr db'"
  shows "db' = db\<lparr>appointments :=
               map (\<lambda>a. if appointment_id a = i then set_status_and_notes st n a else a)
                 (appointments db),
             audit_logs := audit_logs db @
               [status_change_entry OLD (set_status_and_notes st n OLD).
                  OLD \<leftarrow> appointments db, appointment_id OLD = i \<and> status OLD \<noteq> st]\<rparr>"
  using after_update_each_Inr [OF assms [unfolded update_appointments_def Let_def]]
  by (simp add: status_changes_of_updated)


lemma put_appointment_status_OK:
  assumes "put_appointment_status db req_user i status' notes' = (OK_200, db')"
  shows "status_validation_ok status'"
    and "select_permitted db i req_user \<noteq> []"
    and "\<exists>st n. enum_of_parameter status' = Some st \<and> bind_parameter notes' = Inr n
           \<and> update_appointments db st n i = Inr db'"
  using assms
  by (auto simp: put_appointment_status_def Let_def
      split: if_splits option.splits sum.splits prod.splits)

lemma put_appointment_status_failed:
  assumes "put_appointment_status db req_user i status' notes' = (r, db')" and "r \<noteq> OK_200"
  shows "db' = db"
  using assms
  by (auto simp: put_appointment_status_def Let_def
      split: if_splits option.splits sum.splits prod.splits)


lemma filter_unique_key:
  assumes "distinct (map f xs)" and "x \<in> set xs"
  shows "filter (\<lambda>a. f a = f x) xs = [x]"
  using assms
proof (induction xs)
  case Nil
  then show ?case by simp
next
  case (Cons y ys)
  show ?case
  proof (cases "y = x")
    case True
    have "f x \<notin> f ` set ys"
      using Cons.prems(1) True by simp
    then have "\<forall>a \<in> set ys. f a \<noteq> f x"
      by (metis imageI)
    then have "filter (\<lambda>a. f a = f x) ys = []"
      by (simp add: filter_empty_conv)
    then show ?thesis using True by simp
  next
    case False
    then have "x \<in> set ys" using Cons.prems(2) by simp
    moreover have "f y \<noteq> f x" using Cons.prems(1) \<open>x \<in> set ys\<close> by auto
    ultimately show ?thesis using Cons by simp
  qed
qed

lemma concat_map_filter_conj:
  "[g x. x \<leftarrow> xs, P x \<and> Q x] = [g x. x \<leftarrow> filter P xs, Q x]"
  by (induction xs) auto

lemma status_name_inject: "status_name a = status_name b \<longleftrightarrow> a = b"
  by (cases a; cases b) simp_all

subsection \<open>The example updates, step by step\<close>

lemma booked_db_confirm:
  "put_appointment_status booked_db therapist_2 1 (Status_string ''confirmed'') Null =
     (OK_200,
      booked_db\<lparr>appointments := [booked_0900\<lparr>status := Confirmed\<rparr>],
               audit_logs :=
                 [\<lparr>al_user_id = Some 6, al_action = ''status_change'',
                   al_table_name = ''appointments'', al_record_id = Some 1,
                   al_old_values = [(''status'', ''scheduled'')],
                   al_new_values = [(''status'', ''confirmed'')]\<rparr>]\<rparr>)"
  by (simp add: put_appointment_status_def recognized_statuses_def select_permitted_def
      permitted_def enum_of_string_def update_appointments_def set_status_and_notes_def
      log_appointment_changes_def status_change_entry_def user_exists_def
      booked_db_def booked_0900_def seed_db_def therapist_2_def)

lemma booked_db_same_status:
  "put_appointment_status booked_db patient_6 1 (Status_string ''scheduled'') (Text (js ''call first'')) =
     (OK_200, booked_db\<lparr>appointments := [booked_0900\<lparr>appointment_notes := Some (js ''call first'')\<rparr>]\<rparr>)"
  by (simp add: put_appointment_status_def recognized_statuses_def select_permitted_def
      permitted_def enum_of_string_def update_appointments_def set_status_and_notes_def
      log_appointment_changes_def status_change_entry_def user_exists_def
      booked_db_def booked_0900_def seed_db_def patient_6_def)



subsection \<open>Who may update, and what is rejected\<close>

text \<open>
  What holds of every request: a status that is not an array and not one of the
  five strings gets the validation error, whatever the database holds and without
  changing it; an actor who is not the patient of the appointment, not its
  therapist and not an admin gets an error, and the database is left as it was;
  the update succeeds only for an appointment of which the actor is the patient or
  the therapist, or when the actor is an admin.
\<close>

lemma status_update_needs_permission:
  "(v \<notin> set recognized_statuses \<longrightarrow>
      put_appointment_status db req_user i (Status_string v) notes' = (Validation_failed_400, db))
   \<and> ((\<forall>a \<in> set (appointments db). appointment_id a = i \<longrightarrow>
          patient_id a \<noteq> actor_user_id req_user \<and> therapist_id a \<noteq> actor_user_id req_user
          \<and> actor_role req_user \<noteq> Admin) \<longrightarrow>
        fst (put_appointment_status db req_user i status' notes')
          \<in> {Validation_failed_400, Not_found_404}
        \<and> snd (put_appointment_status db req_user i status' notes') = db)
   \<and> (put_appointment_status db req_user i status' notes' = (OK_200, db') \<longrightarrow>
        (\<exists>a \<in> set (appointments db). appointment_id a = i
           \<and> (patient_id a = actor_user_id req_user \<or> therapist_id a = actor_user_id req_user
                \<or> actor_role req_user = Admin)))"
proof (intro conjI impI)
  assume "v \<notin> set recognized_statuses"
  then show "put_appointment_status db req_user i (Status_string v) notes'
      = (Validation_failed_400, db)"
    by (simp add: put_appointment_status_def)
next
  assume no: "\<forall>a \<in> set (appointments db). appointment_id a = i \<longrightarrow>
          patient_id a \<noteq> actor_user_id req_user \<and> therapist_id a \<noteq> actor_user_id req_user
          \<and> actor_role req_user \<noteq> Admin"
  then have e: "select_permitted db i req_user = []"
    by (auto simp: select_permitted_def permitted_def filter_empty_conv)
  show "fst (put_appointment_status db req_user i status' notes')
          \<in> {Validation_failed_400, Not_found_404}"
    by (simp add: put_appointment_status_def e)
  show "snd (put_appointment_status db req_user i status' notes') = db"
    by (simp add: put_appointment_status_def e)
next
  assume "put_appointment_status db req_user i status' notes' = (OK_200, db')"
  then have "select_permitted db i req_user \<noteq> []"
    by (rule put_appointment_status_OK(2))
  then obtain a where "a \<in> set (appointments db)" "appointment_id a = i" "permitted req_user a"
    by (auto simp: select_permitted_def filter_empty_conv)
  then show "\<exists>a \<in> set (appointments db). appointment_id a = i
           \<and> (patient_id a = actor_user_id req_user \<or> therapist_id a = actor_user_id req_user
                \<or> actor_role req_user = Admin)"
    by (auto simp: permitted_def)
qed

text \<open>
  An array is never stored as a status: the statement that would store it fails,
  so no request with an array succeeds.
\<close>

lemma array_status_never_succeeds:
  "fst (put_appointment_status db req_user i (Status_array vs) notes') \<noteq> OK_200"
  by (simp add: put_appointment_status_def Let_def split: sum.splits)

text \<open>
  C8 on the code. The status of the body is the empty array, which is none of the
  five recognized values. \<^verbatim>\<open>isIn\<close> checks the elements of an array and there is
  none, so the validation passes and the handler runs its SELECT: patient 7, who
  has no part in appointment 1, is answered with 404 (no such appointment for this
  actor), and so is patient 6 while the table is empty; once the appointment of
  patient 6 is stored the SELECT finds it and the handler goes on to the UPDATE.
  The answer is never the validation error, and it depends on the stored rows.
\<close>

theorem array_status_reaches_storage:
  "status_validation_ok (Status_array [])
   \<and> put_appointment_status booked_db patient_7 1 (Status_array []) Null
       = (Not_found_404, booked_db)
   \<and> put_appointment_status seed_db patient_6 1 (Status_array []) Null
       = (Not_found_404, seed_db)
   \<and> select_permitted booked_db 1 patient_6 = [booked_0900]
   \<and> fst (put_appointment_status booked_db patient_6 1 (Status_array []) Null)
       \<noteq> Validation_failed_400
   \<and> fst (put_appointment_status booked_db patient_6 1 (Status_array []) Null)
       \<noteq> Not_found_404"
proof -
  have p: "select_permitted booked_db 1 patient_7 = []"
    "select_permitted seed_db 1 patient_6 = []"
    "select_permitted booked_db 1 patient_6 = [booked_0900]"
    by (simp_all add: select_permitted_def permitted_def booked_db_def booked_0900_def
        seed_db_def patient_6_def patient_7_def)
  show ?thesis
    by (simp add: put_appointment_status_def p)
qed

theorem array_status_reaches_storage_witness:
  "fst (put_appointment_status booked_db patient_7 1 (Status_array []) Null) = Not_found_404
   \<and> fst (put_appointment_status seed_db patient_6 1 (Status_array []) Null)
       \<noteq> fst (put_appointment_status booked_db patient_6 1 (Status_array []) Null)"
proof -
  note t = array_status_reaches_storage
  have a: "put_appointment_status booked_db patient_7 1 (Status_array []) Null
       = (Not_found_404, booked_db)"
    using t by (elim conjE)
  have b: "put_appointment_status seed_db patient_6 1 (Status_array []) Null
       = (Not_found_404, seed_db)"
    using t by (elim conjE)
  have c: "fst (put_appointment_status booked_db patient_6 1 (Status_array []) Null)
       \<noteq> Not_found_404"
    using t by (elim conjE)
  show ?thesis
    using c by (simp add: a b)
qed

subsection \<open>No status is terminal\<close>




subsection \<open>The audit entry of a status change\<close>

text \<open>
  C7, as the code has it. After a successful status update of the appointment with
  id \<open>i\<close> (ids are the primary key), \<^verbatim>\<open>audit_logs\<close> has exactly one more row when the
  requested status differs from the stored one, and is unchanged when they are the
  same. The row records the old and the new status, the appointment's id, and as
  \<^verbatim>\<open>user_id\<close> the patient of the appointment (the trigger's \<^verbatim>\<open>NEW.patient_id\<close>),
  whoever the actor is.
\<close>

theorem status_change_audit_entry:
  assumes "put_appointment_status db req_user i (Status_string status') notes' = (OK_200, db')"
    and "distinct (map appointment_id (appointments db))"
    and "OLD \<in> set (appointments db)" and "appointment_id OLD = i"
  shows "audit_logs db' = audit_logs db @
           (if status_name (status OLD) \<noteq> status' then
              [\<lparr>al_user_id = Some (patient_id OLD),
                al_action = ''status_change'',
                al_table_name = ''appointments'',
                al_record_id = Some i,
                al_old_values = [(''status'', status_name (status OLD))],
                al_new_values = [(''status'', status')]\<rparr>]
            else [])"
proof -
  obtain st n where st: "enum_of_string status' = Some st"
      and u: "update_appointments db st n i = Inr db'"
    using put_appointment_status_OK(3) [OF assms(1)] by auto
  have "status' \<in> set recognized_statuses"
    using put_appointment_status_OK(1) [OF assms(1)] by simp
  then have name: "status_name st = status'"
    using recognized_status_enum st by fastforce
  have only: "filter (\<lambda>a. appointment_id a = i) (appointments db) = [OLD]"
    using filter_unique_key [OF assms(2,3)] assms(4) by simp
  have "[status_change_entry x (set_status_and_notes st n x).
           x \<leftarrow> appointments db, appointment_id x = i \<and> status x \<noteq> st]
        = [status_change_entry x (set_status_and_notes st n x).
           x \<leftarrow> filter (\<lambda>a. appointment_id a = i) (appointments db), status x \<noteq> st]"
    by (rule concat_map_filter_conj)
  also have "\<dots> = (if status OLD \<noteq> st
      then [status_change_entry OLD (set_status_and_notes st n OLD)] else [])"
    by (simp add: only)
  finally have "audit_logs db' = audit_logs db @ (if status OLD \<noteq> st
      then [status_change_entry OLD (set_status_and_notes st n OLD)] else [])"
    using update_appointments_Inr [OF u] by simp
  then show ?thesis
    using name assms(4) status_name_inject [of "status OLD" st]
    by (auto simp: status_change_entry_def set_status_and_notes_def)
qed

theorem status_change_audit_entry_witness:
  "audit_logs (snd (put_appointment_status booked_db therapist_2 1 (Status_string ''confirmed'') Null))
     = audit_logs booked_db @
         [\<lparr>al_user_id = Some 6, al_action = ''status_change'',
           al_table_name = ''appointments'', al_record_id = Some 1,
           al_old_values = [(''status'', ''scheduled'')],
           al_new_values = [(''status'', ''confirmed'')]\<rparr>]
   \<and> audit_logs (snd (put_appointment_status booked_db patient_6 1 (Status_string ''scheduled'')
        (Text (js ''call first'')))) = audit_logs booked_db"
proof -
  have k: "distinct (map appointment_id (appointments booked_db))"
    "booked_0900 \<in> set (appointments booked_db)" "appointment_id booked_0900 = 1"
    by (simp_all add: booked_db_def booked_0900_def)
  have v: "status_name (status booked_0900) = ''scheduled''" "patient_id booked_0900 = 6"
    by (simp_all add: booked_0900_def)
  show ?thesis
    using status_change_audit_entry [OF booked_db_confirm k]
      status_change_audit_entry [OF booked_db_same_status k]
    by (simp add: v booked_db_confirm booked_db_same_status)
qed

text \<open>
  C7 as stated fails on the actor: the therapist (user 2) confirms the appointment
  of patient 6, and the audit row names user 6.
\<close>

theorem audit_entry_names_patient_counterexample:
  "actor_user_id therapist_2 = 2
   \<and> fst (put_appointment_status booked_db therapist_2 1 (Status_string ''confirmed'') Null) = OK_200
   \<and> map al_user_id
        (audit_logs (snd (put_appointment_status booked_db therapist_2 1 (Status_string ''confirmed'') Null)))
       = [Some 6]"
  by (simp add: booked_db_confirm) (simp add: therapist_2_def booked_db_def seed_db_def)

section \<open>The unique key and double booking\<close>

lemma unique_appointment_set_status [simp]:
  "unique_appointment (set_status_and_notes st n a) = unique_appointment a"
  by (simp add: unique_appointment_def set_status_and_notes_def)

lemma insert_appointments_unique_key:
  assumes "insert_appointments q db row = Inr (db', i)" and "unique_key_holds db"
  shows "unique_key_holds db'"
proof -
  obtain c where db': "appointments db' = appointments db @ [row\<lparr>total_cost := c, appointment_id := i\<rparr>]"
      and new: "unique_appointment row \<notin> set (map unique_appointment (appointments db))"
    using insert_appointments_Inr [OF assms(1)] by auto
  have "unique_appointment (row\<lparr>total_cost := c, appointment_id := i\<rparr>) = unique_appointment row"
    by (simp add: unique_appointment_def)
  then show ?thesis
    using assms(2) new by (simp add: unique_key_holds_def db')
qed

lemma post_appointments_at_unique_key:
  assumes "post_appointments_at q db1 db2 db req_user body = (r, db')" and "unique_key_holds db"
  shows "unique_key_holds db'"
proof (cases "\<exists>i. r = Created_201 i")
  case True
  then obtain i where "r = Created_201 i" by blast
  then obtain n where "insert_appointments q db (create_values req_user body n) = Inr (db', i)"
    using post_appointments_at_Created(4) assms(1) by blast
  then show ?thesis
    using assms(2) by (rule insert_appointments_unique_key)
next
  case False
  then have "db' = db"
    using post_appointments_at_failed [OF assms(1)] by blast
  then show ?thesis using assms(2) by simp
qed

lemma put_appointment_status_unique_key:
  assumes "put_appointment_status db req_user i status' notes' = (r, db')" and "unique_key_holds db"
  shows "unique_key_holds db'"
proof (cases "r = OK_200")
  case True
  then obtain st n where "update_appointments db st n i = Inr db'"
    using put_appointment_status_OK(3) assms(1) by blast
  then have "appointments db' =
      map (\<lambda>a. if appointment_id a = i then set_status_and_notes st n a else a) (appointments db)"
    using update_appointments_Inr by fastforce
  then have "map unique_appointment (appointments db') = map unique_appointment (appointments db)"
    by simp
  then show ?thesis
    using assms(2) by (simp add: unique_key_holds_def)
next
  case False
  then have "db' = db"
    using put_appointment_status_failed [OF assms(1)] by blast
  then show ?thesis using assms(2) by simp
qed

lemma reachable_unique_key:
  assumes "reachable q db"
  shows "unique_key_holds db"
  using assms
proof (induction rule: reachable.induct)
  case (reachable_init db)
  then show ?case by (simp add: unique_key_holds_def)
next
  case (reachable_insert db row db' i)
  then show ?case by (auto intro: insert_appointments_unique_key)
next
  case (reachable_create db db1 db2 req_user body r db')
  then show ?case by (auto intro: post_appointments_at_unique_key)
next
  case (reachable_status db req_user i status' notes' r db')
  then show ?case by (auto intro: put_appointment_status_unique_key)
next
  case (reachable_other db db')
  then show ?case by (simp add: unique_key_holds_def)
qed

lemma unique_key_no_double_booking:
  assumes "unique_key_holds db"
  shows "no_double_booking db"
  using assms by (simp add: unique_key_holds_def no_double_booking_def distinct_map_filter)

text \<open>
  C1. In every reachable state no two appointments that are neither cancelled nor
  completed have the same therapist, date and time, and the state the create handler
  or the status handler leaves is such a state again. (The unique key of the table
  covers all rows, whatever their status, which is more than the claim asks.)
\<close>

theorem reachable_no_double_booking:
  assumes "reachable sql_div db"
  shows "no_double_booking db
    \<and> no_double_booking (snd (post_appointments_at sql_div db1 db2 db req_user body))
    \<and> no_double_booking (snd (put_appointment_status db req_user i status' notes'))"
proof (intro conjI)
  show "no_double_booking db"
    using assms by (intro unique_key_no_double_booking reachable_unique_key)
  have "reachable sql_div (snd (post_appointments_at sql_div db1 db2 db req_user body))"
    using assms by (rule reachable_create) (rule surjective_pairing)
  then show "no_double_booking (snd (post_appointments_at sql_div db1 db2 db req_user body))"
    by (intro unique_key_no_double_booking reachable_unique_key)
  have "reachable sql_div (snd (put_appointment_status db req_user i status' notes'))"
    using assms by (rule reachable_status) (rule surjective_pairing)
  then show "no_double_booking (snd (put_appointment_status db req_user i status' notes'))"
    by (intro unique_key_no_double_booking reachable_unique_key)
qed

subsection \<open>The insert on a taken slot\<close>

lemma calculate_appointment_cost_tables:
  assumes "therapists db = therapists db0" and "users db = users db0"
  shows "calculate_appointment_cost q db row = calculate_appointment_cost q db0 row"
  using assms by (simp add: calculate_appointment_cost_def select_therapist_rate_def)

lemma insert_appointments_ER_DUP_ENTRY:
  assumes "calculate_appointment_cost q db row = Inr row'"
    and "user_exists db (patient_id row)" and "user_exists db (therapist_id row)"
    and "unique_appointment row \<in> set (map unique_appointment (appointments db))"
    and "storable_date (appointment_date row)"
  shows "insert_appointments q db row = Inl ER_DUP_ENTRY"
proof -
  obtain c where f: "row' = row\<lparr>total_cost := c\<rparr>"
    using calculate_appointment_cost_fields [OF assms(1)] by blast
  have "unique_appointment (row\<lparr>total_cost := c, appointment_id := appointments_auto_increment db\<rparr>)
      = unique_appointment row"
    by (simp add: unique_appointment_def)
  then show ?thesis
    using assms by (simp add: insert_appointments_def Let_def f)
qed

lemma example_insert_taken:
  assumes "therapists db = therapists seed_db" and "users db = users seed_db"
    and "map unique_appointment (appointments db) = [(2, monday_2024_06_10, 32400)]"
  shows "insert_appointments (div_scaled 4) db (create_values patient_7 ortopedi_0900 None)
           = Inl ER_DUP_ENTRY"
proof (rule insert_appointments_ER_DUP_ENTRY)
  let ?row = "booked_0900\<lparr>appointment_id := 0, patient_id := 7, total_cost := None\<rparr>"
  have v: "create_values patient_7 ortopedi_0900 None = ?row"
    by (simp add: ortopedi_0900_values patient_7_def)
  have "calculate_appointment_cost (div_scaled 4) db ?row
      = calculate_appointment_cost (div_scaled 4) (seed_db\<lparr>appointments := []\<rparr>) ?row"
    by (rule calculate_appointment_cost_tables) (simp_all add: assms)
  then show "calculate_appointment_cost (div_scaled 4) db (create_values patient_7 ortopedi_0900 None)
      = Inr (?row\<lparr>total_cost := Some 20000000\<rparr>)"
    by (simp add: v seed_db_cost)
  show "user_exists db (patient_id (create_values patient_7 ortopedi_0900 None))"
    "user_exists db (therapist_id (create_values patient_7 ortopedi_0900 None))"
    by (simp_all add: v user_exists_def assms seed_db_def booked_0900_def)
  show "unique_appointment (create_values patient_7 ortopedi_0900 None)
      \<in> set (map unique_appointment (appointments db))"
    by (simp add: v assms unique_appointment_def booked_0900_def)
  show "storable_date (appointment_date (create_values patient_7 ortopedi_0900 None))"
    by (simp add: v booked_0900_def storable_2024_06_10)
qed

lemma booked_db_insert_taken:
  "insert_appointments (div_scaled 4) booked_db (create_values patient_7 ortopedi_0900 None)
     = Inl ER_DUP_ENTRY"
  by (rule example_insert_taken)
    (simp_all add: booked_db_def booked_0900_def unique_appointment_def)

lemma cancelled_db_insert_taken:
  "insert_appointments (div_scaled 4) cancelled_db (create_values patient_7 ortopedi_0900 None)
     = Inl ER_DUP_ENTRY"
  by (rule example_insert_taken)
    (simp_all add: cancelled_db_def booked_db_def booked_0900_def unique_appointment_def)

lemma cancelled_db_no_conflict:
  "select_conflicts cancelled_db 2 monday_2024_06_10 32400 = []"
  by (simp add: select_conflicts_def cancelled_db_def)

lemma seed_db_no_conflict:
  "select_conflicts seed_db 2 monday_2024_06_10 32400 = []"
  by (simp add: select_conflicts_def seed_db_def)

lemma example_therapist_2:
  assumes "users db = users seed_db"
  shows "select_active_therapist db 2 \<noteq> []"
  by (simp add: select_active_therapist_def assms seed_db_def)

lemma ortopedi_0900_fields:
  "b_therapist_id ortopedi_0900 = 2" "b_appointment_date ortopedi_0900 = monday_2024_06_10"
  "b_time_hour ortopedi_0900 * 3600 + b_time_minute ortopedi_0900 * 60 = 32400"
  "bind_parameter (b_notes ortopedi_0900) = Inr None"
  by (simp_all add: ortopedi_0900_def)

lemma cancelled_db_create:
  "post_appointments (div_scaled 4) cancelled_db patient_7 ortopedi_0900
     = (Internal_error_500, cancelled_db)"
proof -
  have "users cancelled_db = users seed_db"
    by (simp add: cancelled_db_def booked_db_def)
  then have "select_active_therapist cancelled_db 2 \<noteq> []"
    by (rule example_therapist_2)
  then show ?thesis
    by (simp add: post_appointments_def post_appointments_at_def ortopedi_0900_valid
        ortopedi_0900_fields cancelled_db_no_conflict cancelled_db_insert_taken)
qed

lemma race_create:
  "post_appointments_at (div_scaled 4) seed_db seed_db booked_db patient_7 ortopedi_0900
     = (Internal_error_500, booked_db)"
  by (simp add: post_appointments_at_def ortopedi_0900_valid
      ortopedi_0900_fields seed_db_no_conflict booked_db_insert_taken example_therapist_2)

lemma cancelled_db_slots:
  "GetAvailableTimeSlots cancelled_db 2 monday_2024_06_10 =
     Inr [\<lparr>slot_start_time = 28800, slot_end_time = 32400, slot_time = 28800\<rparr>,
          \<lparr>slot_start_time = 32400, slot_end_time = 61200, slot_time = 32400\<rparr>]"
  by (simp add: GetAvailableTimeSlots_def select_therapist_id_def booked_times_def
      DAYOFWEEK_def days_from_civil_def days_before_year_def monday_2024_06_10_def
      cancelled_db_def booked_db_def booked_0900_def seed_db_def)


theorem reachable_no_double_booking_witness:
  "reachable (div_scaled 4) booked_db
   \<and> no_double_booking booked_db
   \<and> no_double_booking
       (snd (post_appointments_at (div_scaled 4) seed_db seed_db booked_db patient_7 ortopedi_0900))
   \<and> no_double_booking
       (snd (put_appointment_status booked_db therapist_2 1 (Status_string ''confirmed'') Null))"
proof -
  have "appointments seed_db = []"
    by (simp add: seed_db_def)
  then have "reachable (div_scaled 4) seed_db"
    by (rule reachable_init)
  then have r: "reachable (div_scaled 4) booked_db"
    using seed_db_create by (rule reachable_create)
  show ?thesis
    using r reachable_no_double_booking [OF r] by blast
qed

section \<open>A slot whose appointment was cancelled\<close>

text \<open>
  C2 on the code. Appointment 1 (therapist 2, 2024-06-10, 09:00) is cancelled. The
  conflict check of the create handler finds nothing at that slot and the stored
  procedure lists 09:00 as available, but the insert violates the unique key, which
  does not look at the status: the request ends in the 500 response and nothing is
  stored.
\<close>

theorem cancelled_slot_cannot_be_rebooked:
  "map status (appointments cancelled_db) = [Cancelled]
   \<and> select_conflicts cancelled_db 2 monday_2024_06_10 32400 = []
   \<and> GetAvailableTimeSlots cancelled_db 2 monday_2024_06_10 =
       Inr [\<lparr>slot_start_time = 28800, slot_end_time = 32400, slot_time = 28800\<rparr>,
            \<lparr>slot_start_time = 32400, slot_end_time = 61200, slot_time = 32400\<rparr>]
   \<and> insert_appointments (div_scaled 4) cancelled_db
         (create_values patient_7 ortopedi_0900 None) = Inl ER_DUP_ENTRY
   \<and> post_appointments (div_scaled 4) cancelled_db patient_7 ortopedi_0900
       = (Internal_error_500, cancelled_db)"
proof -
  have "map status (appointments cancelled_db) = [Cancelled]"
    by (simp add: cancelled_db_def)
  then show ?thesis
    by (simp add: cancelled_db_no_conflict cancelled_db_slots cancelled_db_insert_taken
        cancelled_db_create)
qed

theorem cancelled_slot_cannot_be_rebooked_witness:
  "fst (post_appointments (div_scaled 4) cancelled_db patient_7 ortopedi_0900) = Internal_error_500
   \<and> appointments (snd (post_appointments (div_scaled 4) cancelled_db patient_7 ortopedi_0900))
       = [booked_0900\<lparr>status := Cancelled\<rparr>]"
proof -
  have "post_appointments (div_scaled 4) cancelled_db patient_7 ortopedi_0900
       = (Internal_error_500, cancelled_db)"
    using cancelled_slot_cannot_be_rebooked by (elim conjE)
  then show ?thesis
    by (simp add: cancelled_db_def)
qed

section \<open>A duplicate key at the insert\<close>

text \<open>
  C3, as the code has it. When the request is valid, the therapist lookup and the
  conflict check pass, and the INSERT then fails on a duplicate key, the handler's
  \<^verbatim>\<open>catch\<close> answers with the 500 response (\<^verbatim>\<open>Internal server error\<close>), as for any
  other failure, and the database is left as it was.
\<close>

theorem duplicate_key_at_insert_is_internal_error:
  assumes "create_validation_ok body"
    and "select_active_therapist db1 (b_therapist_id body) \<noteq> []"
    and "select_conflicts db2 (b_therapist_id body) (b_appointment_date body)
           (b_time_hour body * 3600 + b_time_minute body * 60) = []"
    and "bind_parameter (b_notes body) = Inr n"
    and "insert_appointments sql_div db (create_values req_user body n) = Inl ER_DUP_ENTRY"
  shows "post_appointments_at sql_div db1 db2 db req_user body = (Internal_error_500, db)"
  using assms by (simp add: post_appointments_at_def)

theorem duplicate_key_at_insert_is_internal_error_witness:
  "select_conflicts seed_db 2 monday_2024_06_10 32400 = []
   \<and> insert_appointments (div_scaled 4) booked_db (create_values patient_7 ortopedi_0900 None)
       = Inl ER_DUP_ENTRY
   \<and> post_appointments_at (div_scaled 4) seed_db seed_db booked_db patient_7 ortopedi_0900
       = (Internal_error_500, booked_db)"
proof -
  have t: "select_active_therapist seed_db (b_therapist_id ortopedi_0900) \<noteq> []"
    by (rule seed_db_therapist_2)
  have c: "select_conflicts seed_db (b_therapist_id ortopedi_0900)
      (b_appointment_date ortopedi_0900)
      (b_time_hour ortopedi_0900 * 3600 + b_time_minute ortopedi_0900 * 60) = []"
    by (simp add: ortopedi_0900_fields seed_db_no_conflict)
  have "post_appointments_at (div_scaled 4) seed_db seed_db booked_db patient_7 ortopedi_0900
       = (Internal_error_500, booked_db)"
    by (rule duplicate_key_at_insert_is_internal_error
        [OF ortopedi_0900_valid t c ortopedi_0900_fields(4) booked_db_insert_taken])
  then show ?thesis
    by (simp add: seed_db_no_conflict booked_db_insert_taken)
qed

text \<open>
  C3 as stated fails: two requests for the same free slot both pass the conflict
  check on the empty table; the insert of the second runs after the first was
  stored, fails on the unique key, and is answered with 500, not with the 409 of
  the conflict check.
\<close>

theorem race_loser_gets_internal_error_counterexample:
  "select_conflicts seed_db 2 monday_2024_06_10 32400 = []
   \<and> post_appointments_at (div_scaled 4) seed_db seed_db seed_db patient_6 ortopedi_0900
       = (Created_201 1, booked_db)
   \<and> insert_appointments (div_scaled 4) booked_db (create_values patient_7 ortopedi_0900 None)
       = Inl ER_DUP_ENTRY
   \<and> fst (post_appointments_at (div_scaled 4) seed_db seed_db booked_db patient_7 ortopedi_0900)
       = Internal_error_500
   \<and> Internal_error_500 \<noteq> Slot_booked_409"
  by (simp add: seed_db_no_conflict seed_db_create booked_db_insert_taken race_create)

section \<open>Available time slots\<close>

lemma concat_map_if_filter: "[g x. x \<leftarrow> xs, P x] = map g (filter P xs)"
  by (induction xs) auto
lemma select_therapist_id_unique:
  assumes "distinct (map profile_user_id (therapists db))"
  shows "\<exists>tid. select_therapist_id db u = Inr tid
    \<and> (\<forall>i. tid = Some i \<longleftrightarrow>
          (\<exists>t \<in> set (therapists db). profile_user_id t = u \<and> therapist_pk t = i))"
proof (cases "\<exists>t \<in> set (therapists db). profile_user_id t = u")
  case True
  then obtain t where t: "t \<in> set (therapists db)" "profile_user_id t = u" by blast
  have only: "filter (\<lambda>a. profile_user_id a = u) (therapists db) = [t]"
    using filter_unique_key [OF assms t(1)] t(2) by simp
  then have s: "select_therapist_id db u = Inr (Some (therapist_pk t))"
    by (simp add: select_therapist_id_def concat_map_if_filter)
  have u: "\<And>t'. t' \<in> set (therapists db) \<Longrightarrow> profile_user_id t' = u \<Longrightarrow> t' = t"
  proof -
    fix t' assume "t' \<in> set (therapists db)" "profile_user_id t' = u"
    then have "t' \<in> set (filter (\<lambda>a. profile_user_id a = u) (therapists db))" by simp
    then show "t' = t" by (simp add: only)
  qed
  show ?thesis
  proof (intro exI [of _ "Some (therapist_pk t)"] conjI allI iffI)
    show "select_therapist_id db u = Inr (Some (therapist_pk t))" by (rule s)
  next
    fix i assume "Some (therapist_pk t) = Some i"
    then show "\<exists>t \<in> set (therapists db). profile_user_id t = u \<and> therapist_pk t = i"
      using t by blast
  next
    fix i assume "\<exists>t \<in> set (therapists db). profile_user_id t = u \<and> therapist_pk t = i"
    then obtain t' where "t' \<in> set (therapists db)" "profile_user_id t' = u" "therapist_pk t' = i"
      by blast
    then show "Some (therapist_pk t) = Some i"
      using u by blast
  qed
next
  case False
  then have "filter (\<lambda>a. profile_user_id a = u) (therapists db) = []"
    by (auto simp: filter_empty_conv)
  then have "select_therapist_id db u = Inr None"
    by (simp add: select_therapist_id_def concat_map_if_filter)
  then show ?thesis
    using False by simp
qed

lemma map_sort_key: "map f (sort_key f xs) = sort (map f xs)"
  by (rule properties_for_sort [symmetric]) (simp_all add: sorted_sort_key)
lemma day_index_range: "0 \<le> DAYOFWEEK date - 1 \<and> DAYOFWEEK date - 1 \<le> 6"
  by (simp add: DAYOFWEEK_def)

lemma booked_times_set:
  "t \<in> set (booked_times db u date) \<longleftrightarrow>
     (\<exists>a \<in> set (appointments db). therapist_id a = u \<and> appointment_date a = date
        \<and> status a \<noteq> Cancelled \<and> status a \<noteq> Completed \<and> appointment_time a = t)"
  by (auto simp: booked_times_def concat_map_if_filter)

subsection \<open>The day count follows the calendar\<close>

lemma days_before_year_closed:
  "days_before_year y = 365 * y + y div 4 - y div 100 + y div 400"
proof -
  define q r where "q = y div 400" and "r = y mod 400"
  have y: "y = 400 * q + r" by (simp add: q_def r_def)
  have a: "(400 * q + r) div 4 = 100 * q + r div 4" by simp
  have b: "(400 * q + r) div 100 = 4 * q + r div 100" by simp
  have "days_before_year y = q * 146097 + (r * 365 + r div 4 - r div 100)"
    by (simp add: days_before_year_def q_def r_def)
  also have "\<dots> = 365 * (400 * q + r) + (400 * q + r) div 4 - (400 * q + r) div 100 + q"
    unfolding a b by simp
  also have "\<dots> = 365 * y + y div 4 - y div 100 + y div 400"
    unfolding y [symmetric] by (simp add: q_def)
  finally show ?thesis .
qed

lemma div_successor:
  fixes y n :: int
  assumes "0 < n"
  shows "(y + 1) div n = y div n + (if (y + 1) mod n = 0 then 1 else 0)"
proof -
  define q r where "q = y div n" and "r = y mod n"
  have r: "0 \<le> r" "r < n" using assms by (simp_all add: r_def)
  have y: "y + 1 = n * q + (r + 1)" by (simp add: q_def r_def)
  have d: "(y + 1) div n = q + (r + 1) div n" unfolding y using assms by simp
  have m: "(y + 1) mod n = (r + 1) mod n" unfolding y by simp
  show ?thesis
  proof (cases "r + 1 = n")
    case True
    then show ?thesis using d m assms by (simp add: q_def)
  next
    case False
    then have "r + 1 < n" using r by simp
    then have "(r + 1) div n = 0" "(r + 1) mod n = r + 1" using r by simp_all
    then show ?thesis using d m r by (simp add: q_def)
  qed
qed

lemma leap_year_int:
  "leap_year y \<longleftrightarrow> int y mod 4 = 0 \<and> (int y mod 100 \<noteq> 0 \<or> int y mod 400 = 0)"
proof -
  have "int y mod 4 = int (y mod 4)" "int y mod 100 = int (y mod 100)"
    "int y mod 400 = int (y mod 400)"
    by (simp_all add: zmod_int)
  then show ?thesis
    unfolding leap_year_def by simp
qed

lemma days_before_next_year:
  "days_before_year (int y + 1) =
     days_before_year (int y) + 365 + (if leap_year (y + 1) then 1 else 0)"
proof -
  define z where "z = int y + 1"
  have c: "z mod 400 = 0 \<Longrightarrow> z mod 100 = 0" "z mod 100 = 0 \<Longrightarrow> z mod 4 = 0"
  proof -
    have "z mod 400 mod 100 = z mod 100" by (rule mod_mod_cancel) simp
    then show "z mod 400 = 0 \<Longrightarrow> z mod 100 = 0" by simp
    have "z mod 100 mod 4 = z mod 4" by (rule mod_mod_cancel) simp
    then show "z mod 100 = 0 \<Longrightarrow> z mod 4 = 0" by simp
  qed
  have l: "leap_year (y + 1) \<longleftrightarrow> z mod 4 = 0 \<and> (z mod 100 \<noteq> 0 \<or> z mod 400 = 0)"
    using leap_year_int [of "y + 1"] by (simp add: z_def add.commute)
  have d4: "z div 4 = int y div 4 + (if z mod 4 = 0 then 1 else 0)"
    unfolding z_def by (rule div_successor) simp
  have d100: "z div 100 = int y div 100 + (if z mod 100 = 0 then 1 else 0)"
    unfolding z_def by (rule div_successor) simp
  have d400: "z div 400 = int y div 400 + (if z mod 400 = 0 then 1 else 0)"
    unfolding z_def by (rule div_successor) simp
  have "days_before_year z = 365 * z + z div 4 - z div 100 + z div 400"
    by (rule days_before_year_closed)
  also have "\<dots> = days_before_year (int y) + 365
      + ((if z mod 4 = 0 then 1 else 0) - (if z mod 100 = 0 then 1 else 0)
         + (if z mod 400 = 0 then 1 else 0))"
    unfolding d4 d100 d400 days_before_year_closed [of "int y"] by (simp add: z_def)
  also have "(if z mod 4 = 0 then 1 else 0) - (if z mod 100 = 0 then 1 else 0)
         + (if z mod 400 = 0 then 1 else 0) = (if leap_year (y + 1) then 1 else (0::int))"
  proof (cases "z mod 400 = 0")
    case True
    then show ?thesis using c l by simp
  next
    case n400: False
    show ?thesis
    proof (cases "z mod 100 = 0")
      case True
      then show ?thesis using c n400 l by simp
    next
      case False
      then show ?thesis using n400 l by simp
    qed
  qed
  finally show ?thesis
    by (simp add: z_def)
qed

lemma days_from_civil_fields:
  "days_from_civil \<lparr>date_year = y, date_month = m, date_day = dd\<rparr> =
     days_before_year (int y - (if m \<le> 2 then 1 else 0))
       + ((153 * ((int m + 9) mod 12) + 2) div 5 + int dd - 1) - 719468"
  by (simp add: days_from_civil_def Let_def)

lemma days_from_civil_next_day:
  assumes "valid_date d"
  shows "days_from_civil (next_day d) = days_from_civil d + 1"
proof -
  obtain y m dd where d: "d = \<lparr>date_year = y, date_month = m, date_day = dd\<rparr>"
    by (cases d) simp
  have v: "1 \<le> y" "1 \<le> m" "m \<le> 12" "1 \<le> dd" "dd \<le> days_in_month y m"
    using assms by (simp_all add: valid_date_def d)
  have year: "days_before_year (int y) =
      days_before_year (int y - 1) + 365 + (if leap_year y then 1 else 0)"
    using days_before_next_year [of "y - 1"] v(1) by (simp add: of_nat_diff)
  show ?thesis
  proof (cases "dd < days_in_month y m")
    case True
    then show ?thesis
      by (simp add: next_day_def d days_from_civil_fields)
  next
    case False
    then have last: "dd = days_in_month y m"
      using v(5) by simp
    have "m = 1 \<or> m = 2 \<or> m = 3 \<or> m = 4 \<or> m = 5 \<or> m = 6 \<or> m = 7 \<or> m = 8 \<or> m = 9
      \<or> m = 10 \<or> m = 11 \<or> m = 12"
      using v(2,3) by arith
    then consider "m = 2" | "m = 12"
      | "m = 1 \<or> m = 3 \<or> m = 4 \<or> m = 5 \<or> m = 6 \<or> m = 7 \<or> m = 8 \<or> m = 9 \<or> m = 10 \<or> m = 11"
      by blast
    then show ?thesis
    proof cases
      case 1
      then show ?thesis
        using last year by (simp add: next_day_def d days_from_civil_fields days_in_month_def)
    next
      case 2
      then show ?thesis
        using last by (simp add: next_day_def d days_from_civil_fields days_in_month_def)
    next
      case 3
      then show ?thesis
        using last
        by (elim disjE) (simp_all add: next_day_def d days_from_civil_fields days_in_month_def)
    qed
  qed
qed

lemma DAYOFWEEK_next_day:
  assumes "valid_date d"
  shows "DAYOFWEEK (next_day d) = DAYOFWEEK d mod 7 + 1"
proof -
  have "(days_from_civil d + 1 + 4) mod 7 = ((days_from_civil d + 4) mod 7 + 1) mod 7"
    by (simp add: mod_simps)
  then show ?thesis
    by (simp add: DAYOFWEEK_def days_from_civil_next_day [OF assms] mod_simps)
qed

subsection \<open>The rows of the procedure\<close>

text \<open>
  C4. With at most one profile per user (\<^verbatim>\<open>therapists.user_id\<close> is \<^verbatim>\<open>UNIQUE\<close>), the
  procedure returns rows and never an error, and the slot times of these rows are,
  in ascending order, the start times of the windows that are available, belong to
  the profile of that user, are for the day of the week of the date (0 for Sunday
  up to 6 for Saturday), and start at a time at which that user has no appointment
  on that date other than cancelled or completed ones. No window, no row. The
  procedure is one SELECT: it returns rows and no database. The day of the week
  is the calendar's: 2024-06-09, a Sunday, has index 0, and from every valid date
  to the next day the index goes up by one, from 6 back to 0.
\<close>

theorem available_slots_are_the_free_window_starts:
  assumes "distinct (map profile_user_id (therapists db))"
  shows "\<exists>rows. GetAvailableTimeSlots db therapist_user_id date = Inr rows
    \<and> map slot_time rows =
        sort (map start_time
          (filter
            (\<lambda>ta. is_available ta \<and> day_of_week ta = DAYOFWEEK date - 1
               \<and> (\<exists>t \<in> set (therapists db).
                     profile_user_id t = therapist_user_id \<and> therapist_pk t = ta_therapist_id ta)
               \<and> \<not> (\<exists>a \<in> set (appointments db).
                     therapist_id a = therapist_user_id \<and> appointment_date a = date
                     \<and> status a \<noteq> Cancelled \<and> status a \<noteq> Completed
                     \<and> appointment_time a = start_time ta))
            (therapist_availability db)))
    \<and> 0 \<le> DAYOFWEEK date - 1 \<and> DAYOFWEEK date - 1 \<le> 6
    \<and> DAYOFWEEK \<lparr>date_year = 2024, date_month = 6, date_day = 9\<rparr> - 1 = 0
    \<and> (valid_date date \<longrightarrow>
         DAYOFWEEK (next_day date) - 1 = (DAYOFWEEK date - 1 + 1) mod 7)"
proof -
  obtain tid where tid: "select_therapist_id db therapist_user_id = Inr tid"
    and own: "\<And>i. tid = Some i \<longleftrightarrow>
          (\<exists>t \<in> set (therapists db). profile_user_id t = therapist_user_id \<and> therapist_pk t = i)"
    using select_therapist_id_unique [OF assms] by blast
  let ?model = "\<lambda>ta. Some (ta_therapist_id ta) = tid \<and> day_of_week ta = DAYOFWEEK date - 1
      \<and> is_available ta \<and> start_time ta \<notin> set (booked_times db therapist_user_id date)"
  let ?claim = "\<lambda>ta. is_available ta \<and> day_of_week ta = DAYOFWEEK date - 1
      \<and> (\<exists>t \<in> set (therapists db).
            profile_user_id t = therapist_user_id \<and> therapist_pk t = ta_therapist_id ta)
      \<and> \<not> (\<exists>a \<in> set (appointments db).
            therapist_id a = therapist_user_id \<and> appointment_date a = date
            \<and> status a \<noteq> Cancelled \<and> status a \<noteq> Completed
            \<and> appointment_time a = start_time ta)"
  have same: "?model = ?claim"
  proof (rule ext)
    fix ta
    have "Some (ta_therapist_id ta) = tid \<longleftrightarrow>
        (\<exists>t \<in> set (therapists db).
            profile_user_id t = therapist_user_id \<and> therapist_pk t = ta_therapist_id ta)"
      using own [of "ta_therapist_id ta"] by metis
    then show "?model ta = ?claim ta"
      unfolding booked_times_set by blast
  qed
  let ?rows = "map (\<lambda>ta. \<lparr>slot_start_time = start_time ta, slot_end_time = end_time ta,
                           slot_time = start_time ta\<rparr>)
                 (sort_key start_time (filter ?model (therapist_availability db)))"
  have r: "GetAvailableTimeSlots db therapist_user_id date = Inr ?rows"
    by (simp add: GetAvailableTimeSlots_def tid)
  have "map slot_time ?rows = map start_time (sort_key start_time (filter ?model (therapist_availability db)))"
    by (simp add: comp_def)
  also have "\<dots> = sort (map start_time (filter ?model (therapist_availability db)))"
    by (rule map_sort_key)
  finally have m: "map slot_time ?rows
      = sort (map start_time (filter ?claim (therapist_availability db)))"
    unfolding same .
  have d: "0 \<le> DAYOFWEEK date - 1" "DAYOFWEEK date - 1 \<le> 6"
    using day_index_range [of date] by blast+
  have sunday: "DAYOFWEEK \<lparr>date_year = 2024, date_month = 6, date_day = 9\<rparr> - 1 = 0"
    by (simp add: DAYOFWEEK_def days_from_civil_def days_before_year_def)
  have step: "valid_date date \<longrightarrow>
         DAYOFWEEK (next_day date) - 1 = (DAYOFWEEK date - 1 + 1) mod 7"
    by (simp add: DAYOFWEEK_next_day)
  show ?thesis
    by (intro exI [of _ ?rows] conjI r m d sunday step)
qed

theorem available_slots_are_the_free_window_starts_witness:
  "GetAvailableTimeSlots booked_db 2 monday_2024_06_10 =
     Inr [\<lparr>slot_start_time = 28800, slot_end_time = 32400, slot_time = 28800\<rparr>]
   \<and> GetAvailableTimeSlots seed_db 2 monday_2024_06_10 =
     Inr [\<lparr>slot_start_time = 28800, slot_end_time = 32400, slot_time = 28800\<rparr>,
          \<lparr>slot_start_time = 32400, slot_end_time = 61200, slot_time = 32400\<rparr>]
   \<and> GetAvailableTimeSlots seed_db 6 monday_2024_06_10 = Inr []
   \<and> DAYOFWEEK monday_2024_06_10 - 1 = 1
   \<and> DAYOFWEEK \<lparr>date_year = 2024, date_month = 6, date_day = 9\<rparr> - 1 = 0
   \<and> DAYOFWEEK \<lparr>date_year = 2024, date_month = 6, date_day = 15\<rparr> - 1 = 6"
proof -
  have u: "distinct (map profile_user_id (therapists booked_db))"
    by (simp add: booked_db_def seed_db_def)
  obtain rows where rows: "GetAvailableTimeSlots booked_db 2 monday_2024_06_10 = Inr rows"
    and times: "map slot_time rows =
        sort (map start_time
          (filter
            (\<lambda>ta. is_available ta \<and> day_of_week ta = DAYOFWEEK monday_2024_06_10 - 1
               \<and> (\<exists>t \<in> set (therapists booked_db).
                     profile_user_id t = 2 \<and> therapist_pk t = ta_therapist_id ta)
               \<and> \<not> (\<exists>a \<in> set (appointments booked_db).
                     therapist_id a = 2 \<and> appointment_date a = monday_2024_06_10
                     \<and> status a \<noteq> Cancelled \<and> status a \<noteq> Completed
                     \<and> appointment_time a = start_time ta))
            (therapist_availability booked_db)))"
    using available_slots_are_the_free_window_starts [OF u, of 2 monday_2024_06_10]
    by (elim exE conjE)
  have monday: "DAYOFWEEK monday_2024_06_10 - 1 = 1"
    by (simp add: DAYOFWEEK_def days_from_civil_def days_before_year_def monday_2024_06_10_def)
  have "map slot_time rows = [28800]"
    unfolding times monday by (simp add: booked_db_def booked_0900_def seed_db_def)
  moreover have "GetAvailableTimeSlots booked_db 2 monday_2024_06_10 =
     Inr [\<lparr>slot_start_time = 28800, slot_end_time = 32400, slot_time = 28800\<rparr>]"
    by (simp add: GetAvailableTimeSlots_def select_therapist_id_def booked_times_def monday
        booked_db_def booked_0900_def seed_db_def)
  moreover have "GetAvailableTimeSlots seed_db 2 monday_2024_06_10 =
     Inr [\<lparr>slot_start_time = 28800, slot_end_time = 32400, slot_time = 28800\<rparr>,
          \<lparr>slot_start_time = 32400, slot_end_time = 61200, slot_time = 32400\<rparr>]"
    by (simp add: GetAvailableTimeSlots_def select_therapist_id_def booked_times_def monday
        seed_db_def)
  moreover have "GetAvailableTimeSlots seed_db 6 monday_2024_06_10 = Inr []"
    by (simp add: GetAvailableTimeSlots_def select_therapist_id_def booked_times_def monday
        seed_db_def)
  moreover have "DAYOFWEEK \<lparr>date_year = 2024, date_month = 6, date_day = 9\<rparr> - 1 = 0"
    "DAYOFWEEK \<lparr>date_year = 2024, date_month = 6, date_day = 15\<rparr> - 1 = 6"
    by (simp_all add: DAYOFWEEK_def days_from_civil_def days_before_year_def)
  ultimately show ?thesis
    using monday by simp
qed

section \<open>The cost of an appointment\<close>














subsection \<open>The example inserts\<close>
















end
